theory Spec2Isabelle
  imports Main "HOL-Library.Sublist" "HOL-Library.Multiset"
    "HOL-Library.Product_Lexorder" "HOL-Library.List_Lexorder"
begin

section \<open>Strings and the Python library\<close>

text \<open>
  A Python \<open>str\<close> is a sequence of Unicode code points; it is modelled as a list of
  natural numbers. \<open>lit\<close> embeds an ASCII literal.
\<close>

type_synonym ustr = "nat list"

definition lit :: "string \<Rightarrow> ustr" where
  "lit s = map of_char s"

text \<open>
  The parts of the Python runtime and of Werkzeug that the program calls and that depend
  on tables not in the repository:
  \<^item> \<open>decimal_ext\<close>: the decimal value of a non-ASCII code point of Unicode category
    Nd (what \<open>\d\<close> matches and \<open>int\<close> accepts beyond \<open>0\<close>..\<open>9\<close>);
  \<^item> \<open>lower_ext\<close>: \<open>str.lower\<close> on a string with a non-ASCII character;
  \<^item> \<open>max_str_digits\<close>: the interpreter's limit on the digits of \<open>int(str)\<close>
    (0 for no limit);
  \<^item> \<open>secure_filename\<close>: Werkzeug's filename sanitiser;
  \<^item> \<open>posix_path\<close>: the path that \<open>pathlib\<close> builds from the upload folder and the
    given components with \<open>/\<close>, in POSIX form: relative to the upload folder where it
    lies under it, absolute where an absolute component has discarded the folder;
  \<^item> \<open>under_upload\<close>: whether that path lies under the upload folder, that is,
    whether \<open>relative_to(UPLOAD_FOLDER)\<close> returns rather than raising \<open>ValueError\<close>.
\<close>

record pylib =
  decimal_ext :: "nat \<Rightarrow> nat option"
  lower_ext :: "ustr \<Rightarrow> ustr"
  max_str_digits :: nat
  secure_filename :: "ustr \<Rightarrow> ustr"
  posix_path :: "ustr list \<Rightarrow> ustr"
  under_upload :: "ustr list \<Rightarrow> bool"

datatype py_error = ValueError

text \<open>\<open>str.isspace\<close> of one code point, the set that \<open>str.strip()\<close> removes.\<close>

definition py_isspace :: "nat \<Rightarrow> bool" where
  "py_isspace c =
     ((9 \<le> c \<and> c \<le> 13) \<or> (28 \<le> c \<and> c \<le> 32) \<or> c = 133 \<or> c = 160 \<or> c = 5760
      \<or> (8192 \<le> c \<and> c \<le> 8202) \<or> c = 8232 \<or> c = 8233 \<or> c = 8239 \<or> c = 8287
      \<or> c = 12288)"

text \<open>
  The decimal value of a code point: \<open>0\<close>..\<open>9\<close> in ASCII, the table beyond; a table
  entry counts only where it is a digit value below 10 of a character that is no white
  space, as in Unicode.
\<close>

definition decimal_value :: "pylib \<Rightarrow> nat \<Rightarrow> nat option" where
  "decimal_value L c =
     (if 48 \<le> c \<and> c \<le> 57 then Some (c - 48)
      else if c < 128 \<or> py_isspace c then None
      else (case decimal_ext L c of
              None \<Rightarrow> None
            | Some d \<Rightarrow> if d < 10 then Some d else None))"

definition is_decimal :: "pylib \<Rightarrow> nat \<Rightarrow> bool" where
  "is_decimal L c = (decimal_value L c \<noteq> None)"

definition digit_of :: "pylib \<Rightarrow> nat \<Rightarrow> nat" where
  "digit_of L c = (case decimal_value L c of None \<Rightarrow> 0 | Some d \<Rightarrow> d)"

definition digits_value :: "pylib \<Rightarrow> ustr \<Rightarrow> nat" where
  "digits_value L ds = foldl (\<lambda>acc c. acc * 10 + digit_of L c) 0 ds"

definition py_strip :: "ustr \<Rightarrow> ustr" where
  "py_strip s = rev (dropWhile py_isspace (rev (dropWhile py_isspace s)))"


text \<open>
  \<open>s.replace(old, new)\<close>: the non-overlapping occurrences of \<open>old\<close>, found from the
  left. For an empty \<open>old\<close> Python puts \<open>new\<close> before every character and at the end.
\<close>

function replace_from :: "ustr \<Rightarrow> ustr \<Rightarrow> ustr \<Rightarrow> ustr" where
  "replace_from old new s =
     (if old = [] \<or> s = [] then s
      else if prefix old s then new @ replace_from old new (drop (length old) s)
      else hd s # replace_from old new (tl s))"
  by pat_completeness auto
termination
  by (relation "measure (\<lambda>(old, new, s). length s)") auto

definition py_replace :: "ustr \<Rightarrow> ustr \<Rightarrow> ustr \<Rightarrow> ustr" where
  "py_replace old new s =
     (if old = [] then new @ concat (map (\<lambda>c. c # new) s) else replace_from old new s)"

text \<open>\<open>str.lower\<close>: on ASCII only the letters \<open>A\<close>..\<open>Z\<close> change.\<close>

definition ascii_lower :: "nat \<Rightarrow> nat" where
  "ascii_lower c = (if 65 \<le> c \<and> c \<le> 90 then c + 32 else c)"

definition py_lower :: "pylib \<Rightarrow> ustr \<Rightarrow> ustr" where
  "py_lower L s = (if list_all (\<lambda>c. c < 128) s then map ascii_lower s else lower_ext L s)"

text \<open>\<open>str(n)\<close> of an integer: decimal, ASCII digits, a minus sign when negative.\<close>

fun dec_digits :: "nat \<Rightarrow> ustr" where
  "dec_digits n = (if n < 10 then [48 + n] else dec_digits (n div 10) @ [48 + n mod 10])"

declare dec_digits.simps [simp del]

definition py_str :: "int \<Rightarrow> ustr" where
  "py_str i = (if i < 0 then 45 # dec_digits (nat (- i)) else dec_digits (nat i))"

text \<open>
  \<open>int(s)\<close> in base 10. CPython maps every non-ASCII space to a blank and every
  non-ASCII decimal digit to its ASCII digit, then reads: blanks (tab, newline, vertical
  tab, form feed, carriage return, space), one optional sign, digits with single
  underscores between them, blanks, end of string. Anything else, and a number with more
  than 640 digits that exceeds a non-zero \<open>max_str_digits\<close>, raises \<open>ValueError\<close>.
\<close>

definition int_space :: "nat \<Rightarrow> bool" where
  "int_space c = ((9 \<le> c \<and> c \<le> 13) \<or> c = 32 \<or> (127 \<le> c \<and> py_isspace c))"

fun adjacent_underscores :: "ustr \<Rightarrow> bool" where
  "adjacent_underscores (a # b # r) = ((a = 95 \<and> b = 95) \<or> adjacent_underscores (b # r))"
| "adjacent_underscores r = False"

definition int_sign :: "ustr \<Rightarrow> bool \<times> ustr" where
  "int_sign s =
     (case s of
        [] \<Rightarrow> (False, [])
      | c # r \<Rightarrow> if c = 43 then (False, r) else if c = 45 then (True, r) else (False, s))"

definition py_int :: "pylib \<Rightarrow> ustr \<Rightarrow> py_error + int" where
  "py_int L s =
     (let (neg, s2) = int_sign (dropWhile int_space s);
          body = takeWhile (\<lambda>c. is_decimal L c \<or> c = 95) s2;
          rest = dropWhile (\<lambda>c. is_decimal L c \<or> c = 95) s2;
          ds = filter (\<lambda>c. c \<noteq> 95) body
      in if body = [] \<or> hd body = 95 \<or> last body = 95 \<or> adjacent_underscores body
            \<or> \<not> list_all int_space rest
            \<or> (640 < length ds \<and> 0 < max_str_digits L \<and> max_str_digits L < length ds)
         then Inl ValueError
         else Inr ((if neg then - 1 else 1) * int (digits_value L ds)))"

section \<open>Exam-year parser\<close>

text \<open>
  \<open>re.fullmatch(r"(\d{4})", s)\<close> and \<open>re.fullmatch(r"(\d{4})-(\d{2}|\d{4})", s)\<close>:
  the captured groups of the match, or \<open>None\<close>.
\<close>

definition fullmatch_year :: "pylib \<Rightarrow> ustr \<Rightarrow> ustr option" where
  "fullmatch_year L s = (if length s = 4 \<and> list_all (is_decimal L) s then Some s else None)"

definition fullmatch_range :: "pylib \<Rightarrow> ustr \<Rightarrow> (ustr \<times> ustr) option" where
  "fullmatch_range L s =
     (let g1 = take 4 s; g2 = drop 5 s
      in if length g1 = 4 \<and> list_all (is_decimal L) g1 \<and> take 1 (drop 4 s) = [45]
            \<and> (length g2 = 2 \<or> length g2 = 4) \<and> list_all (is_decimal L) g2
         then Some (g1, g2) else None)"

text \<open>
  The first line of \<open>parse_exam_year\<close>:
  \<open>(value or "").strip().replace("\<dots>", "-").replace("\<dots>", "-").replace(" ", "")\<close>
  with the en dash U+2013 and the em dash U+2014. A \<open>None\<close> argument behaves as the
  empty string.
\<close>

definition exam_year_text :: "ustr \<Rightarrow> ustr" where
  "exam_year_text v = py_replace [32] [] (py_replace [8212] [45] (py_replace [8211] [45] (py_strip v)))"

text \<open>
  \<open>parse_exam_year\<close>. Every \<open>int(...)\<close> of the source may raise \<open>ValueError\<close>; the
  model propagates it as \<open>Inl\<close>.
\<close>

definition range_end :: "pylib \<Rightarrow> int \<Rightarrow> ustr \<Rightarrow> py_error + int" where
  "range_end L start end_part =
     (if length end_part = 4 then py_int L end_part
      else (case py_int L end_part of
              Inl e \<Rightarrow> Inl e
            | Inr e2 \<Rightarrow> py_int L (py_str (start div 100 * 100 + e2))))"

definition parse_exam_year :: "pylib \<Rightarrow> ustr \<Rightarrow> py_error + (int option \<times> ustr option)" where
  "parse_exam_year L v =
     (let s = exam_year_text v in
      case fullmatch_year L s of
        Some g \<Rightarrow> (case py_int L g of Inl e \<Rightarrow> Inl e | Inr y \<Rightarrow> Inr (Some y, None))
      | None \<Rightarrow>
         (case fullmatch_range L s of
            Some (g1, end_part) \<Rightarrow>
              (case py_int L g1 of
                 Inl e \<Rightarrow> Inl e
               | Inr start \<Rightarrow>
                  (case range_end L start end_part of
                     Inl e \<Rightarrow> Inl e
                   | Inr end0 \<Rightarrow>
                      (let end1 = (if end0 < start then start + 1 else end0)
                       in Inr (Some start, Some (py_str start @ [45] @ py_str end1)))))
          | None \<Rightarrow> Inr (None, None)))"

section \<open>Paper records\<close>

text \<open>
  One element of the JSON array in \<open>data/papers.json\<close>, with the keys that
  \<open>upload\<close> writes. \<open>academic_year\<close> is \<open>None\<close> for Python's \<open>None\<close>;
  \<open>stored_path\<close> is \<open>None\<close> where \<open>p.get("stored_path")\<close> yields no string.
\<close>

record paper =
  pid :: int
  year :: int
  semester :: int
  subject :: ustr
  exam_type :: ustr
  exam_year :: int
  academic_year :: "ustr option"
  original_filename :: ustr
  stored_path :: "ustr option"
  uploaded_at :: ustr

text \<open>\<open>max(iterable, default=d)\<close>: the default only for an empty iterable.\<close>

definition py_max_default :: "int list \<Rightarrow> int \<Rightarrow> int" where
  "py_max_default xs d = (case xs of [] \<Rightarrow> d | y # ys \<Rightarrow> fold max ys y)"

definition next_id :: "paper list \<Rightarrow> int" where
  "next_id data = py_max_default (map pid data) 0 + 1"


section \<open>Disk state\<close>

text \<open>
  What the routes read and write: the JSON array of \<open>DATA_FILE\<close>, the files written
  by the uploads (a file is identified by its path string, relative to
  \<open>UPLOAD_FOLDER\<close> where it lies under it), and a log of the disk operations performed
  so far, in order. \<open>load_data\<close> and \<open>save_data\<close>,
  \<open>mkdir\<close> and \<open>f.save\<close> are taken to succeed; \<open>unlink\<close>, whose exception the
  source catches, fails where the environment says so.
\<close>

type_synonym bytes = "nat list"

datatype io_event =
    MkDir ustr | LoadData | SaveData | SaveFile ustr | Unlink ustr | UnlinkFailed ustr

record world =
  store :: "paper list"
  files :: "ustr \<rightharpoonup> bytes"
  trace :: "io_event list"

text \<open>
  The environment of one request: which paths \<open>unlink\<close> raises on, and the text of
  \<open>datetime.now().isoformat(timespec="seconds")\<close> at the \<open>i\<close>-th file of a batch.
\<close>

record env =
  unlink_raises :: "ustr \<Rightarrow> bool"
  now :: "nat \<Rightarrow> ustr"

definition load_data :: "world \<Rightarrow> paper list \<times> world" where
  "load_data w = (store w, w\<lparr>trace := trace w @ [LoadData]\<rparr>)"

definition save_data :: "paper list \<Rightarrow> world \<Rightarrow> world" where
  "save_data data w = w\<lparr>store := data, trace := trace w @ [SaveData]\<rparr>"

text \<open>\<open>x or ""\<close> and \<open>x or d\<close> for an optional string: \<open>None\<close> and \<open>""\<close> are falsy.\<close>

definition or_str :: "ustr option \<Rightarrow> ustr \<Rightarrow> ustr" where
  "or_str x d = (case x of None \<Rightarrow> d | Some s \<Rightarrow> if s = [] then d else s)"

section \<open>Path normalisation\<close>

text \<open>
  The expression of \<open>normalize_data_paths\<close>,
  \<open>sp.replace("\\\\", "/").replace("\\", "/")\<close>: first two backslashes, then one
  (code point 92), by a slash (47).
\<close>

definition heal_path :: "ustr \<Rightarrow> ustr" where
  "heal_path sp = py_replace [92] [47] (py_replace [92, 92] [47] sp)"

fun heal_loop :: "paper list \<Rightarrow> paper list \<times> nat" where
  "heal_loop [] = ([], 0)"
| "heal_loop (p # ps) =
     (let (ps', changed) = heal_loop ps in
      case stored_path p of
        None \<Rightarrow> (p # ps', changed)
      | Some sp \<Rightarrow>
          (let fixed = heal_path sp
           in if fixed \<noteq> sp then (p\<lparr>stored_path := Some fixed\<rparr> # ps', changed + 1)
              else (p # ps', changed)))"

definition normalize_data_paths :: "world \<Rightarrow> nat \<times> world" where
  "normalize_data_paths w =
     (let (data, w1) = load_data w;
          (data', changed) = heal_loop data
      in if changed \<noteq> 0 then (changed, save_data data' w1) else (changed, w1))"


section \<open>Listing\<close>

record list_args =
  a_year :: "ustr option"
  a_semester :: "ustr option"
  a_subject :: "ustr option"
  a_exam_type :: "ustr option"

text \<open>\<open>int(s) if s else None\<close> inside \<open>try\<close>, with \<open>except ValueError: None\<close>.\<close>

definition int_filter :: "pylib \<Rightarrow> ustr \<Rightarrow> int option" where
  "int_filter L s =
     (if s = [] then None else (case py_int L s of Inl ValueError \<Rightarrow> None | Inr n \<Rightarrow> Some n))"

text \<open>The body of the filter loop: \<open>False\<close> where the source says \<open>continue\<close>.\<close>

definition keeps :: "pylib \<Rightarrow> int option \<Rightarrow> int option \<Rightarrow> ustr \<Rightarrow> ustr \<Rightarrow> paper \<Rightarrow> bool" where
  "keeps L yr sem subj et p =
     (if yr \<noteq> None \<and> Some (year p) \<noteq> yr then False
      else if sem \<noteq> None \<and> Some (semester p) \<noteq> sem then False
      else if subj \<noteq> [] \<and> py_lower L (subject p) \<noteq> py_lower L subj then False
      else if et \<noteq> [] \<and> exam_type p \<noteq> et then False
      else True)"

definition listing_key :: "paper \<Rightarrow> int \<times> ustr \<times> ustr" where
  "listing_key x = (- exam_year x, subject x, exam_type x)"

text \<open>
  Filtering and \<open>filtered.sort(key=...)\<close>. Python compares the key tuples
  lexicographically and strings by code points, and its sort is stable, as
  \<open>sort_key\<close> is.
\<close>

definition filter_sort :: "pylib \<Rightarrow> int option \<Rightarrow> int option \<Rightarrow> ustr \<Rightarrow> ustr \<Rightarrow> paper list \<Rightarrow> paper list" where
  "filter_sort L yr sem subj et data = sort_key listing_key (filter (keeps L yr sem subj et) data)"

definition subjects_all :: "int option \<Rightarrow> int option \<Rightarrow> paper list \<Rightarrow> ustr list" where
  "subjects_all yr sem data =
     sort (remdups (map subject
       (filter (\<lambda>p. (yr = None \<or> Some (year p) = yr) \<and> (sem = None \<or> Some (semester p) = sem)) data)))"

text \<open>\<open>papers_list\<close>: the \<open>papers\<close> and \<open>subjects_all\<close> given to the template.\<close>

definition papers_list :: "pylib \<Rightarrow> list_args \<Rightarrow> world \<Rightarrow> (paper list \<times> ustr list) \<times> world" where
  "papers_list L args w =
     (let (data, w1) = load_data w;
          year_str = py_strip (or_str (a_year args) []);
          semester_str = py_strip (or_str (a_semester args) []);
          subj = py_strip (or_str (a_subject args) []);
          et = py_strip (or_str (a_exam_type args) []);
          yr = int_filter L year_str;
          sem = int_filter L semester_str
      in ((filter_sort L yr sem subj et data, subjects_all yr sem data), w1))"

section \<open>Upload\<close>

datatype http_method = GET | POST

record upload_form =
  f_subject :: "ustr option"
  f_exam_type :: "ustr option"
  f_year :: "ustr option"
  f_semester :: "ustr option"
  f_exam_year :: "ustr option"

text \<open>One uploaded file; an absent \<open>filename\<close> is the empty string.\<close>

record incoming =
  filename :: ustr
  payload :: bytes

datatype warning = Unsupported_type ustr | Stale_duplicate ustr

datatype rejection = Not_numbers | Bad_exam_year | No_files | Bad_fields

datatype upload_response =
    Upload_login
  | Upload_page
  | Rejected rejection
  | Unhandled py_error
  | Processed nat nat "warning list"

definition ALLOWED_EXTENSIONS :: "ustr list" where
  "ALLOWED_EXTENSIONS = [lit ''pdf'', lit ''jpg'', lit ''jpeg'', lit ''png'']"

text \<open>\<open>filename.rsplit(".", 1)[1]\<close> for a name with a dot: what follows the last dot.\<close>

definition after_last_dot :: "ustr \<Rightarrow> ustr" where
  "after_last_dot name = rev (takeWhile (\<lambda>c. c \<noteq> 46) (rev name))"

definition allowed_file :: "pylib \<Rightarrow> ustr \<Rightarrow> bool" where
  "allowed_file L name = (46 \<in> set name \<and> py_lower L (after_last_dot name) \<in> set ALLOWED_EXTENSIONS)"

record metadata =
  m_year :: int
  m_semester :: int
  m_subject :: ustr
  m_exam_type :: ustr
  m_exam_year :: int
  m_academic_year :: "ustr option"

text \<open>The local variables of the loop over the files, and the disk.\<close>

record upload_state =
  u_data :: "paper list"
  saved_count :: nat
  skipped_count :: nat
  warnings :: "warning list"
  disk :: world

definition path_parts :: "metadata \<Rightarrow> ustr \<Rightarrow> ustr list" where
  "path_parts m safe_name =
     [py_str (m_year m), py_str (m_semester m), m_subject m, m_exam_type m, safe_name]"

definition file_path_of :: "pylib \<Rightarrow> metadata \<Rightarrow> ustr \<Rightarrow> ustr" where
  "file_path_of L m safe_name = posix_path L (path_parts m safe_name)"

text \<open>
  One iteration of \<open>for f in files\<close>. The record is built after \<open>f.save\<close>; its
  \<open>stored_path\<close> is \<open>file_path.relative_to(UPLOAD_FOLDER).as_posix()\<close>, which raises
  \<open>ValueError\<close> for a path that does not lie under the upload folder. Nothing catches
  it: the request ends there, with the disk as it is (\<open>Inl\<close>).
\<close>

definition upload_file :: "pylib \<Rightarrow> env \<Rightarrow> metadata \<Rightarrow> incoming \<Rightarrow> upload_state \<Rightarrow> (py_error \<times> world) + upload_state" where
  "upload_file L E m f st =
     (if \<not> allowed_file L (filename f)
      then Inr (st\<lparr>warnings := warnings st @ [Unsupported_type (filename f)],
                   skipped_count := skipped_count st + 1\<rparr>)
      else
        (let safe_name = secure_filename L (filename f);
             file_path = file_path_of L m safe_name;
             d = disk st;
             there = (files d file_path \<noteq> None)
         in if there \<and> unlink_raises E file_path
            then Inr (st\<lparr>warnings := warnings st @ [Stale_duplicate safe_name],
                         skipped_count := skipped_count st + 1,
                         disk := d\<lparr>trace := trace d @ [UnlinkFailed file_path]\<rparr>\<rparr>)
            else
              (let d1 = d\<lparr>files := (files d)(file_path \<mapsto> payload f),
                           trace := trace d @ (if there then [Unlink file_path] else [])
                                      @ [SaveFile file_path]\<rparr>
               in if \<not> under_upload L (path_parts m safe_name)
                  then Inl (ValueError, d1)
                  else
                    Inr (st\<lparr>u_data := u_data st @
                            [\<lparr>pid = next_id (u_data st), year = m_year m, semester = m_semester m,
                              subject = m_subject m, exam_type = m_exam_type m,
                              exam_year = m_exam_year m, academic_year = m_academic_year m,
                              original_filename = filename f, stored_path = Some file_path,
                              uploaded_at = now E (saved_count st + skipped_count st)\<rparr>],
                       saved_count := saved_count st + 1,
                       disk := d1\<rparr>))))"

text \<open>The loop: an exception ends it.\<close>

fun upload_loop :: "pylib \<Rightarrow> env \<Rightarrow> metadata \<Rightarrow> incoming list \<Rightarrow> upload_state \<Rightarrow> (py_error \<times> world) + upload_state" where
  "upload_loop L E m [] st = Inr st"
| "upload_loop L E m (f # fs) st =
     (case upload_file L E m f st of
        Inl x \<Rightarrow> Inl x
      | Inr st1 \<Rightarrow> upload_loop L E m fs st1)"

text \<open>
  The part of \<open>upload\<close> after the validation: \<open>mkdir\<close>, \<open>load_data\<close>, the loop, one
  \<open>save_data\<close>. An exception of the loop leaves the view before \<open>save_data\<close>.
\<close>

definition store_batch :: "pylib \<Rightarrow> env \<Rightarrow> metadata \<Rightarrow> incoming list \<Rightarrow> world \<Rightarrow> upload_response \<times> world" where
  "store_batch L E m fs w =
     (let target_dir = posix_path L [py_str (m_year m), py_str (m_semester m), m_subject m, m_exam_type m];
          w1 = w\<lparr>trace := trace w @ [MkDir target_dir]\<rparr>;
          (data0, w2) = load_data w1
      in case upload_loop L E m fs
                \<lparr>u_data = data0, saved_count = 0, skipped_count = 0, warnings = [], disk = w2\<rparr> of
           Inl (e, d) \<Rightarrow> (Unhandled e, d)
         | Inr st \<Rightarrow>
             (Processed (saved_count st) (skipped_count st) (warnings st),
              save_data (u_data st) (disk st)))"

definition upload :: "pylib \<Rightarrow> env \<Rightarrow> bool \<Rightarrow> http_method \<Rightarrow> upload_form \<Rightarrow> incoming list \<Rightarrow> world \<Rightarrow> upload_response \<times> world" where
  "upload L E is_admin method form files0 w =
     (if \<not> is_admin then (Upload_login, w)
      else if method \<noteq> POST then (Upload_page, w)
      else
        (let subj = py_strip (or_str (f_subject form) []);
             et = py_strip (or_str (f_exam_type form) [])
         in case py_int L (or_str (f_year form) [48]) of
              Inl ValueError \<Rightarrow> (Rejected Not_numbers, w)
            | Inr yr \<Rightarrow>
           (case py_int L (or_str (f_semester form) [48]) of
              Inl ValueError \<Rightarrow> (Rejected Not_numbers, w)
            | Inr sem \<Rightarrow>
           (case parse_exam_year L (py_strip (or_str (f_exam_year form) [])) of
              Inl e \<Rightarrow> (Unhandled e, w)
            | Inr (ey, ay) \<Rightarrow>
           (case ey of
              None \<Rightarrow> (Rejected Bad_exam_year, w)
            | Some y \<Rightarrow>
               if y = 0 \<or> y < 2000 then (Rejected Bad_exam_year, w)
               else
                 (let fs = filter (\<lambda>f. filename f \<noteq> []) files0
                  in if fs = [] then (Rejected No_files, w)
                     else if subj = [] \<or> et \<notin> {lit ''Mid'', lit ''End''}
                             \<or> yr \<notin> {1, 2, 3, 4} \<or> \<not> (1 \<le> sem \<and> sem < 9)
                     then (Rejected Bad_fields, w)
                     else store_batch L E
                            \<lparr>m_year = yr, m_semester = sem, m_subject = subj, m_exam_type = et,
                             m_exam_year = y, m_academic_year = ay\<rparr> fs w))))))"

section \<open>Deletion\<close>

datatype delete_response = Delete_login | Not_found | Deleted bool

text \<open>
  \<open>delete_paper\<close>. \<open>Deleted True\<close> is the response that also flashes the warning of a
  failed \<open>unlink\<close>. \<open>unlink(missing_ok=True)\<close> on a missing file does nothing.
\<close>

definition unlink_backing :: "env \<Rightarrow> paper \<Rightarrow> world \<Rightarrow> bool \<times> world" where
  "unlink_backing E r w =
     (case stored_path r of
        None \<Rightarrow> (False, w)
      | Some rel \<Rightarrow>
          if rel = [] then (False, w)
          else if unlink_raises E rel
          then (True, w\<lparr>trace := trace w @ [UnlinkFailed rel]\<rparr>)
          else (False, w\<lparr>files := (files w)(rel := None), trace := trace w @ [Unlink rel]\<rparr>))"

definition delete_paper :: "env \<Rightarrow> bool \<Rightarrow> int \<Rightarrow> world \<Rightarrow> delete_response \<times> world" where
  "delete_paper E is_admin paper_id w =
     (if \<not> is_admin then (Delete_login, w)
      else
        (let (data, w1) = load_data w in
         case find (\<lambda>p. pid p = paper_id) data of
           None \<Rightarrow> (Not_found, w1)
         | Some r \<Rightarrow>
             (let (warned, w2) = unlink_backing E r w1
              in (Deleted warned, save_data (filter (\<lambda>p. pid p \<noteq> paper_id) data) w2))))"

section \<open>Descriptions used in the statements\<close>

text \<open>An en dash or an em dash becomes a hyphen; any other character stays.\<close>

definition hyphenate :: "nat \<Rightarrow> nat" where
  "hyphenate c = (if c = 8211 \<or> c = 8212 then 45 else c)"

text \<open>
  The two shapes of a normalised exam-year text: four decimal digits; four decimal
  digits, a hyphen, and two or four decimal digits.
\<close>

definition four_digits :: "pylib \<Rightarrow> ustr \<Rightarrow> bool" where
  "four_digits L s = (length s = 4 \<and> list_all (is_decimal L) s)"

definition range_shape :: "pylib \<Rightarrow> ustr \<Rightarrow> bool" where
  "range_shape L s =
     (four_digits L (take 4 s) \<and> take 1 (drop 4 s) = [45]
      \<and> (length (drop 5 s) = 2 \<or> length (drop 5 s) = 4) \<and> list_all (is_decimal L) (drop 5 s))"

text \<open>
  The end year of a range: a four-digit end as written, a two-digit end put into the
  century of the start year; an end before the start becomes the year after the start.
\<close>

definition range_end_year :: "int \<Rightarrow> nat \<Rightarrow> int \<Rightarrow> int" where
  "range_end_year start n e =
     (let end0 = (if n = 4 then e else start div 100 * 100 + e)
      in if end0 < start then start + 1 else end0)"

definition exam_year_reading :: "pylib \<Rightarrow> ustr \<Rightarrow> int option \<times> ustr option" where
  "exam_year_reading L s =
     (if four_digits L s then (Some (int (digits_value L s)), None)
      else if range_shape L s then
        (let start = int (digits_value L (take 4 s));
             e = range_end_year start (length (drop 5 s)) (int (digits_value L (drop 5 s)))
         in (Some start, Some (py_str start @ [45] @ py_str e)))
      else (None, None))"

text \<open>
  The claim's own reading of the accepted inputs, for comparison: a bare four-digit
  year is four digits and nothing else; a range is four digits, optional white space, a
  hyphen or an en or em dash, optional white space, and two or four digits.
\<close>

definition claimed_bare_year :: "pylib \<Rightarrow> ustr \<Rightarrow> bool" where
  "claimed_bare_year L s = (length s = 4 \<and> list_all (is_decimal L) s)"

definition claimed_year_range :: "pylib \<Rightarrow> ustr \<Rightarrow> bool" where
  "claimed_year_range L s =
     (let a = takeWhile (is_decimal L) s;
          r = dropWhile py_isspace (dropWhile (is_decimal L) s);
          b = dropWhile py_isspace (drop 1 r)
      in length a = 4 \<and> (take 1 r = [45] \<or> take 1 r = [8211] \<or> take 1 r = [8212])
         \<and> (length b = 2 \<or> length b = 4) \<and> list_all (is_decimal L) b)"






text \<open>A record with the path expression of \<open>normalize_data_paths\<close> applied to its path.\<close>

definition healed :: "paper \<Rightarrow> paper" where
  "healed p = p\<lparr>stored_path := map_option heal_path (stored_path p)\<rparr>"

text \<open>
  Where an incoming file is written, whether that place lies under the upload folder,
  whether the loop accepts the file given the files present, the accepted files of a
  batch in order, and the files present after a batch that runs to its end.
\<close>

definition destination :: "pylib \<Rightarrow> metadata \<Rightarrow> incoming \<Rightarrow> ustr" where
  "destination L m f = file_path_of L m (secure_filename L (filename f))"

definition inside :: "pylib \<Rightarrow> metadata \<Rightarrow> incoming \<Rightarrow> bool" where
  "inside L m f = under_upload L (path_parts m (secure_filename L (filename f)))"

definition accepts :: "pylib \<Rightarrow> env \<Rightarrow> metadata \<Rightarrow> (ustr \<rightharpoonup> bytes) \<Rightarrow> incoming \<Rightarrow> bool" where
  "accepts L E m present f =
     (allowed_file L (filename f)
      \<and> \<not> (present (destination L m f) \<noteq> None \<and> unlink_raises E (destination L m f)))"

fun kept :: "pylib \<Rightarrow> env \<Rightarrow> metadata \<Rightarrow> (ustr \<rightharpoonup> bytes) \<Rightarrow> incoming list \<Rightarrow> incoming list" where
  "kept L E m present [] = []"
| "kept L E m present (f # fs) =
     (if accepts L E m present f
      then f # kept L E m (present(destination L m f \<mapsto> payload f)) fs
      else kept L E m present fs)"

fun files_after :: "pylib \<Rightarrow> env \<Rightarrow> metadata \<Rightarrow> (ustr \<rightharpoonup> bytes) \<Rightarrow> incoming list \<Rightarrow> (ustr \<rightharpoonup> bytes)" where
  "files_after L E m present [] = present"
| "files_after L E m present (f # fs) =
     files_after L E m
       (if accepts L E m present f then present(destination L m f \<mapsto> payload f) else present) fs"

text \<open>The record ids are pairwise distinct positive integers.\<close>

definition ids_ok :: "paper list \<Rightarrow> bool" where
  "ids_ok coll = (distinct (map pid coll) \<and> (\<forall>p \<in> set coll. 0 < pid p))"


text \<open>
  The validation of the upload form as the claim states it, and the metadata of a valid
  form: year in 1..4, semester in 1..8, exam type \<open>Mid\<close> or \<open>End\<close>, a subject that is
  not empty, an exam-year text read as a starting year of at least 2000.
\<close>

definition form_metadata :: "pylib \<Rightarrow> upload_form \<Rightarrow> metadata option" where
  "form_metadata L form =
     (case py_int L (or_str (f_year form) [48]) of
        Inl e \<Rightarrow> None
      | Inr yr \<Rightarrow>
     (case py_int L (or_str (f_semester form) [48]) of
        Inl e \<Rightarrow> None
      | Inr sem \<Rightarrow>
     (case exam_year_reading L (exam_year_text (py_strip (or_str (f_exam_year form) []))) of
        (None, ay) \<Rightarrow> None
      | (Some y, ay) \<Rightarrow>
          if yr \<in> {1, 2, 3, 4} \<and> 1 \<le> sem \<and> sem \<le> 8
             \<and> py_strip (or_str (f_exam_type form) []) \<in> {lit ''Mid'', lit ''End''}
             \<and> py_strip (or_str (f_subject form) []) \<noteq> [] \<and> 2000 \<le> y
          then Some \<lparr>m_year = yr, m_semester = sem,
                      m_subject = py_strip (or_str (f_subject form) []),
                      m_exam_type = py_strip (or_str (f_exam_type form) []),
                      m_exam_year = y, m_academic_year = ay\<rparr>
          else None)))"

section \<open>Sample inputs\<close>

text \<open>
  A library instance, an environment and a few records for concrete evaluation: no
  non-ASCII digits, no digit limit hit, a sanitiser that keeps the name, POSIX paths
  joined with \<open>/\<close> from the last component that starts with \<open>/\<close>, an upload folder
  that no such component leads back into, an \<open>unlink\<close> that succeeds.
\<close>

fun join_slash :: "ustr list \<Rightarrow> ustr" where
  "join_slash [] = []"
| "join_slash [c] = c"
| "join_slash (c # cs) = c @ 47 # join_slash cs"

definition absolute :: "ustr \<Rightarrow> bool" where
  "absolute c = (take 1 c = [47])"

fun from_absolute :: "ustr list \<Rightarrow> ustr list" where
  "from_absolute [] = []"
| "from_absolute (c # cs) = (if list_ex absolute cs then from_absolute cs else c # cs)"

definition sample_lib :: pylib where
  "sample_lib = \<lparr>decimal_ext = (\<lambda>c. None), lower_ext = (\<lambda>s. s), max_str_digits = 4300,
                  secure_filename = (\<lambda>s. s),
                  posix_path = (\<lambda>cs. join_slash (from_absolute cs)),
                  under_upload = (\<lambda>cs. \<not> list_ex absolute cs)\<rparr>"

definition sample_env :: env where
  "sample_env = \<lparr>unlink_raises = (\<lambda>p. False), now = (\<lambda>i. lit ''2024-01-01T00:00:00'')\<rparr>"

definition locked_env :: env where
  "locked_env = \<lparr>unlink_raises = (\<lambda>p. True), now = (\<lambda>i. lit ''2024-01-01T00:00:00'')\<rparr>"

definition sample_paper :: "int \<Rightarrow> int \<Rightarrow> ustr \<Rightarrow> paper" where
  "sample_paper i ey subj =
     \<lparr>pid = i, year = 1, semester = 1, subject = subj, exam_type = lit ''Mid'',
      exam_year = ey, academic_year = None, original_filename = lit ''q.pdf'',
      stored_path = Some (lit ''1/1/x/Mid/q.pdf''), uploaded_at = lit ''2024-01-01T00:00:00''\<rparr>"

definition sample_form :: upload_form where
  "sample_form = \<lparr>f_subject = Some (lit ''Physics''), f_exam_type = Some (lit ''Mid''),
                   f_year = Some (lit ''1''), f_semester = Some (lit ''1''),
                   f_exam_year = Some (lit ''2023'')\<rparr>"

definition sample_file :: "string \<Rightarrow> nat \<Rightarrow> incoming" where
  "sample_file name b = \<lparr>filename = lit name, payload = [b]\<rparr>"

definition sample_batch :: "incoming list" where
  "sample_batch = [sample_file ''a.pdf'' 5, sample_file ''b.txt'' 7, sample_file ''a.pdf'' 6]"

definition world_present :: world where
  "world_present = \<lparr>store = [], files = [lit ''1/1/Physics/Mid/a.pdf'' \<mapsto> [9]], trace = []\<rparr>"

definition sample_args :: list_args where
  "sample_args = \<lparr>a_year = Some (lit ''1''), a_semester = None,
                   a_subject = Some (lit ''PHYSICS''), a_exam_type = None\<rparr>"

definition sample_meta :: metadata where
  "sample_meta = \<lparr>m_year = 1, m_semester = 1, m_subject = lit ''Physics'', m_exam_type = lit ''Mid'',
      m_exam_year = 2023, m_academic_year = None\<rparr>"

definition escape_form :: upload_form where
  "escape_form = sample_form\<lparr>f_subject := Some (lit ''/tmp/x'')\<rparr>"

definition escape_meta :: metadata where
  "escape_meta = sample_meta\<lparr>m_subject := lit ''/tmp/x''\<rparr>"

definition world_outside :: world where
  "world_outside = \<lparr>store = [], files = [lit ''/tmp/x/Mid/a.pdf'' \<mapsto> [9]], trace = []\<rparr>"


definition world_3_7 :: world where
  "world_3_7 = \<lparr>store = [sample_paper 3 2023 (lit ''Physics''), sample_paper 7 2024 (lit ''Physics'')],
                 files = Map.empty, trace = []\<rparr>"

text \<open>A collection with records of two years and three semesters.\<close>

definition world_years :: world where
  "world_years =
     \<lparr>store = [sample_paper 1 2023 (lit ''Physics''),
               (sample_paper 2 2024 (lit ''Physics''))\<lparr>year := 2, semester := 3\<rparr>,
               (sample_paper 3 2025 (lit ''Physics''))\<lparr>year := 2, semester := 4\<rparr>],
      files = Map.empty, trace = []\<rparr>"

section \<open>Properties of the string functions\<close>

lemma replace_from_Nil: "replace_from old new [] = []"
  by simp

lemma replace_from_Cons:
  "replace_from old new (c # cs) =
     (if old = [] then c # cs
      else if prefix old (c # cs) then new @ replace_from old new (drop (length old) (c # cs))
      else c # replace_from old new cs)"
  by (subst replace_from.simps) simp

declare replace_from.simps [simp del]

lemma replace_from_single:
  "replace_from [a] new s = concat (map (\<lambda>c. if c = a then new else [c]) s)"
  by (induction s) (auto simp: replace_from_Nil replace_from_Cons)

lemma py_replace_single:
  "py_replace [a] new s = concat (map (\<lambda>c. if c = a then new else [c]) s)"
  by (simp add: py_replace_def replace_from_single)

lemma concat_map_subst:
  "concat (map (\<lambda>c. if c = a then [b] else [c]) s) = map (\<lambda>c. if c = a then b else c) s"
  by (induction s) simp_all

lemma concat_map_filter: "concat (map (\<lambda>c. if c = a then [] else [c]) s) = filter (\<lambda>c. c \<noteq> a) s"
  by (induction s) simp_all

lemma exam_year_text_eq:
  "exam_year_text v = filter (\<lambda>c. c \<noteq> 32) (map hyphenate (py_strip v))"
proof -
  have a: "py_replace [8211] [45] s = map (\<lambda>c. if c = 8211 then 45 else c) s" for s
    by (simp add: py_replace_single concat_map_subst)
  have b: "py_replace [8212] [45] s = map (\<lambda>c. if c = 8212 then 45 else c) s" for s
    by (simp add: py_replace_single concat_map_subst)
  have c: "py_replace [32] [] s = filter (\<lambda>c. c \<noteq> 32) s" for s
    by (simp add: py_replace_single concat_map_filter)
  have d: "(\<lambda>c. if c = 8212 then 45 else c) \<circ> (\<lambda>c. if c = 8211 then 45 else c) = hyphenate"
    by (auto simp: hyphenate_def fun_eq_iff)
  show ?thesis
    by (simp add: exam_year_text_def a b c d)
qed

lemma is_decimal_range: "is_decimal L c \<Longrightarrow> (48 \<le> c \<and> c \<le> 57) \<or> (128 \<le> c \<and> \<not> py_isspace c)"
  by (auto simp: is_decimal_def decimal_value_def split: if_splits)

lemma is_decimal_ascii: "48 \<le> c \<Longrightarrow> c \<le> 57 \<Longrightarrow> is_decimal L c"
  by (simp add: is_decimal_def decimal_value_def)

lemma not_decimal_ascii: "c < 48 \<or> (57 < c \<and> c < 128) \<Longrightarrow> \<not> is_decimal L c"
  by (auto simp: is_decimal_def decimal_value_def)

lemma digit_of_ascii: "48 \<le> c \<Longrightarrow> c \<le> 57 \<Longrightarrow> digit_of L c = c - 48"
  by (simp add: digit_of_def decimal_value_def)

lemma is_decimal_not_int_space: "is_decimal L c \<Longrightarrow> \<not> int_space c"
  by (drule is_decimal_range) (auto simp: int_space_def)

lemma digit_of_less: "digit_of L c < 10"
  by (auto simp: digit_of_def decimal_value_def split: option.splits)

lemma digits_value_Nil: "digits_value L [] = 0"
  by (simp add: digits_value_def)

lemma digits_value_snoc: "digits_value L (ds @ [c]) = digits_value L ds * 10 + digit_of L c"
  by (simp add: digits_value_def)

lemma digits_value_less: "digits_value L ds < 10 ^ length ds"
proof (induction ds rule: rev_induct)
  case Nil
  show ?case by (simp add: digits_value_Nil)
next
  case (snoc c ds)
  have "digit_of L c < 10" by (rule digit_of_less)
  with snoc show ?case by (simp add: digits_value_snoc)
qed

lemma takeWhile_all: "list_all P xs \<Longrightarrow> takeWhile P xs = xs"
  by (induction xs) simp_all

lemma dropWhile_all: "list_all P xs \<Longrightarrow> dropWhile P xs = []"
  by (induction xs) simp_all

lemma no_adjacent_underscores: "95 \<notin> set xs \<Longrightarrow> \<not> adjacent_underscores xs"
  by (induction xs rule: adjacent_underscores.induct) auto

lemma py_int_digits:
  assumes ne: "ds \<noteq> []" and dec: "list_all (is_decimal L) ds" and len: "length ds \<le> 640"
  shows "py_int L ds = Inr (int (digits_value L ds))"
proof -
  obtain c r where ds: "ds = c # r" using ne by (cases ds) auto
  have c: "is_decimal L c" using dec ds by simp
  have no95: "95 \<notin> set ds"
    using dec not_decimal_ascii [of 95 L] by (auto simp: list_all_iff)
  have sp: "dropWhile int_space ds = ds"
    using c is_decimal_not_int_space [OF c] ds by simp
  have sg: "int_sign ds = (False, ds)"
    using is_decimal_range [OF c] ds by (auto simp: int_sign_def)
  have all: "list_all (\<lambda>c. is_decimal L c \<or> c = 95) ds"
    using dec by (auto simp: list_all_iff)
  have f: "filter (\<lambda>c. c \<noteq> 95) ds = ds"
    using no95 by (auto simp: filter_id_conv)
  have h: "hd ds \<noteq> 95" "last ds \<noteq> 95"
    using no95 ne by (metis hd_in_set, metis last_in_set)
  show ?thesis
    unfolding py_int_def sp sg
    using ne len h no_adjacent_underscores [OF no95]
    by (simp add: takeWhile_all [OF all] dropWhile_all [OF all] f)
qed

section \<open>Properties of the exam-year parser\<close>

lemma dec_digits_small: "n < 10 \<Longrightarrow> dec_digits n = [48 + n]"
  by (simp add: dec_digits.simps)

lemma dec_digits_large: "10 \<le> n \<Longrightarrow> dec_digits n = dec_digits (n div 10) @ [48 + n mod 10]"
  by (subst dec_digits.simps) simp

lemma dec_digits_not_Nil: "dec_digits n \<noteq> []"
  by (subst dec_digits.simps) simp

lemma dec_digits_ascii: "list_all (\<lambda>c. 48 \<le> c \<and> c \<le> 57) (dec_digits n)"
proof (induction n rule: dec_digits.induct)
  case (1 n)
  show ?case
  proof (cases "n < 10")
    case True
    then show ?thesis by (simp add: dec_digits_small)
  next
    case False
    have "n mod 10 < 10" by simp
    then have "48 + n mod 10 \<le> 57" by linarith
    with False 1 show ?thesis by (simp add: dec_digits_large)
  qed
qed

lemma dec_digits_decimal: "list_all (is_decimal L) (dec_digits n)"
  using dec_digits_ascii [of n] by (auto simp: list_all_iff is_decimal_ascii)

lemma digits_value_dec_digits: "digits_value L (dec_digits n) = n"
proof (induction n rule: dec_digits.induct)
  case (1 n)
  show ?case
  proof (cases "n < 10")
    case True
    then show ?thesis by (simp add: dec_digits_small digits_value_def digit_of_ascii)
  next
    case False
    have "n mod 10 < 10" by simp
    then have "48 + n mod 10 \<le> 57" by linarith
    then have "digit_of L (48 + n mod 10) = n mod 10" by (simp add: digit_of_ascii)
    with False 1 show ?thesis by (simp add: dec_digits_large digits_value_snoc)
  qed
qed

lemma length_dec_digits: "n < 10 ^ k \<Longrightarrow> 0 < k \<Longrightarrow> length (dec_digits n) \<le> k"
proof (induction n arbitrary: k rule: dec_digits.induct)
  case (1 n)
  show ?case
  proof (cases "n < 10")
    case True
    with 1(3) show ?thesis by (simp add: dec_digits_small)
  next
    case False
    obtain j where k: "k = Suc j" using 1(3) by (cases k) auto
    have j0: "0 < j"
    proof (rule ccontr)
      assume "\<not> 0 < j"
      then have "k = 1" using k by simp
      then show False using 1(2) False by simp
    qed
    have "n div 10 < 10 ^ j" using 1(2) k by (simp add: less_mult_imp_div_less mult.commute)
    then have "length (dec_digits (n div 10)) \<le> j" using 1(1) False j0 by simp
    then show ?thesis using False k by (simp add: dec_digits_large)
  qed
qed

lemma py_int_py_str:
  assumes "0 \<le> i" and "i < 100000"
  shows "py_int L (py_str i) = Inr i"
proof -
  have n: "nat i < 10 ^ 5" using assms by simp
  have "length (dec_digits (nat i)) \<le> 5"
    using length_dec_digits [OF n] by simp
  then have len: "length (dec_digits (nat i)) \<le> 640" by simp
  have "py_int L (dec_digits (nat i)) = Inr (int (digits_value L (dec_digits (nat i))))"
    by (rule py_int_digits [OF dec_digits_not_Nil dec_digits_decimal len])
  then show ?thesis using assms(1) by (simp add: py_str_def digits_value_dec_digits)
qed

lemma py_int_four:
  "four_digits L s \<Longrightarrow> py_int L s = Inr (int (digits_value L s))"
  by (rule py_int_digits) (auto simp: four_digits_def)

lemma fullmatch_year_eq:
  "fullmatch_year L s = (if four_digits L s then Some s else None)"
  by (simp add: fullmatch_year_def four_digits_def)

lemma fullmatch_range_eq:
  "fullmatch_range L s = (if range_shape L s then Some (take 4 s, drop 5 s) else None)"
  by (auto simp: fullmatch_range_def range_shape_def four_digits_def Let_def)

lemma range_end_eq:
  assumes a: "four_digits L g1" and b: "length g2 = 2 \<or> length g2 = 4"
    and c: "list_all (is_decimal L) g2"
  shows "range_end L (int (digits_value L g1)) g2 =
         Inr (if length g2 = 4 then int (digits_value L g2)
              else int (digits_value L g1) div 100 * 100 + int (digits_value L g2))"
proof -
  have g2: "py_int L g2 = Inr (int (digits_value L g2))"
    using b c by (intro py_int_digits) auto
  show ?thesis
  proof (cases "length g2 = 4")
    case True
    then show ?thesis by (simp add: range_end_def g2)
  next
    case False
    let ?n = "int (digits_value L g1) div 100 * 100 + int (digits_value L g2)"
    have v1: "digits_value L g1 < 10 ^ 4"
      using digits_value_less [of L g1] a by (simp add: four_digits_def)
    have v2: "digits_value L g2 < 10 ^ 2"
      using digits_value_less [of L g2] b False by simp
    have lo: "0 \<le> ?n" by simp
    have hi: "?n < 100000" using v1 v2 by simp
    show ?thesis using False by (simp add: range_end_def g2 py_int_py_str [OF lo hi])
  qed
qed

lemma parse_exam_year_reading:
  "parse_exam_year L v = Inr (exam_year_reading L (exam_year_text v))"
proof -
  let ?s = "exam_year_text v"
  show ?thesis
  proof (cases "four_digits L ?s")
    case True
    then show ?thesis
      by (simp add: parse_exam_year_def fullmatch_year_eq py_int_four exam_year_reading_def)
  next
    case nf: False
    show ?thesis
    proof (cases "range_shape L ?s")
      case False
      with nf show ?thesis
        by (simp add: parse_exam_year_def fullmatch_year_eq fullmatch_range_eq exam_year_reading_def)
    next
      case True
      then have a: "four_digits L (take 4 ?s)"
        and b: "length (drop 5 ?s) = 2 \<or> length (drop 5 ?s) = 4"
        and c: "list_all (is_decimal L) (drop 5 ?s)"
        by (simp_all add: range_shape_def)
      show ?thesis
        using nf True
        by (simp add: parse_exam_year_def fullmatch_year_eq fullmatch_range_eq
              exam_year_reading_def py_int_four [OF a] range_end_eq [OF a b c]
              range_end_year_def Let_def)
    qed
  qed
qed

lemma lit_Cons_not_Nil: "lit (c # s) \<noteq> []"
  by (simp add: lit_def)

lemma digits_value_lit4:
  "digits_value L (lit ''2024'') = 2024" "digits_value L (lit ''2099'') = 2099"
  "digits_value L (lit ''2026'') = 2026" "digits_value L (lit ''2023'') = 2023"
  by (simp_all add: digits_value_def digit_of_ascii lit_def)

lemma digits_value_lit2:
  "digits_value L (lit ''25'') = 25" "digits_value L (lit ''05'') = 5"
  "digits_value L (lit ''00'') = 0"
  by (simp_all add: digits_value_def digit_of_ascii lit_def)

lemma four_digits_lit:
  "four_digits L (lit ''2024'')" "four_digits L (lit ''2099'')" "four_digits L (lit ''2023'')"
  by (simp_all add: four_digits_def is_decimal_ascii lit_def)

lemma py_str_lit:
  "py_str 2024 = lit ''2024''" "py_str 2025 = lit ''2025''" "py_str 2026 = lit ''2026''"
  "py_str 2099 = lit ''2099''" "py_str 2100 = lit ''2100''"
  by (simp_all add: py_str_def dec_digits_small dec_digits_large lit_def)

lemma text_examples:
  "exam_year_text (lit ''2024'') = lit ''2024''"
  "exam_year_text (lit ''2023'') = lit ''2023''"
  "exam_year_text (lit ''2024-25'') = lit ''2024-25''"
  "exam_year_text (lit ''2024-05'') = lit ''2024-05''"
  "exam_year_text (lit ''2099-00'') = lit ''2099-00''"
  "exam_year_text (lit ''2024'' @ 8211 # lit ''2026'') = lit ''2024-2026''"
  "exam_year_text (lit ''abc'') = lit ''abc''"
  "exam_year_text (lit ''20 24'') = lit ''2024''"
  "exam_year_text (lit ''2024'' @ 9 # lit ''-25'') = lit ''2024'' @ 9 # lit ''-25''"
  by (simp_all add: exam_year_text_eq py_strip_def py_isspace_def hyphenate_def lit_def)

lemma reading_examples:
  "exam_year_reading L (lit ''2024'') = (Some 2024, None)"
  "exam_year_reading L (lit ''2023'') = (Some 2023, None)"
  "exam_year_reading L (lit ''2024-25'') = (Some 2024, Some (lit ''2024-2025''))"
  "exam_year_reading L (lit ''2024-05'') = (Some 2024, Some (lit ''2024-2025''))"
  "exam_year_reading L (lit ''2099-00'') = (Some 2099, Some (lit ''2099-2100''))"
  "exam_year_reading L (lit ''2024-2026'') = (Some 2024, Some (lit ''2024-2026''))"
  "exam_year_reading L (lit ''abc'') = (None, None)"
  "exam_year_reading L (lit ''2024'' @ 9 # lit ''-25'') = (None, None)"
proof -
  have t: "lit ''2024-25'' = lit ''2024'' @ [45] @ lit ''25''"
    "lit ''2024-05'' = lit ''2024'' @ [45] @ lit ''05''"
    "lit ''2099-00'' = lit ''2099'' @ [45] @ lit ''00''"
    "lit ''2024-2026'' = lit ''2024'' @ [45] @ lit ''2026''"
    "lit ''2024-2025'' = lit ''2024'' @ [45] @ lit ''2025''"
    "lit ''2099-2100'' = lit ''2099'' @ [45] @ lit ''2100''"
    by (simp_all add: lit_def)
  have l: "length (lit ''2024'') = 4" "length (lit ''2099'') = 4" "length (lit ''25'') = 2"
    "length (lit ''05'') = 2" "length (lit ''00'') = 2" "length (lit ''2026'') = 4"
    by (simp_all add: lit_def)
  have d: "list_all (is_decimal L) (lit ''25'')" "list_all (is_decimal L) (lit ''05'')"
    "list_all (is_decimal L) (lit ''00'')" "list_all (is_decimal L) (lit ''2026'')"
    by (simp_all add: is_decimal_ascii lit_def)
  have r: "four_digits L g1 \<Longrightarrow> (length g2 = 2 \<or> length g2 = 4) \<Longrightarrow> list_all (is_decimal L) g2 \<Longrightarrow>
       exam_year_reading L (g1 @ 45 # g2) =
        (Some (int (digits_value L g1)),
         Some (py_str (int (digits_value L g1)) @ 45 #
               py_str (range_end_year (int (digits_value L g1)) (length g2) (int (digits_value L g2)))))" for g1 g2
    by (auto simp: exam_year_reading_def range_shape_def four_digits_def Let_def)
  show "exam_year_reading L (lit ''2024'') = (Some 2024, None)"
    by (simp add: exam_year_reading_def four_digits_lit digits_value_lit4)
  show "exam_year_reading L (lit ''2023'') = (Some 2023, None)"
    by (simp add: exam_year_reading_def four_digits_lit digits_value_lit4)
  show "exam_year_reading L (lit ''2024-25'') = (Some 2024, Some (lit ''2024-2025''))"
    unfolding t by (simp add: r four_digits_lit l d digits_value_lit4 digits_value_lit2
        range_end_year_def py_str_lit)
  show "exam_year_reading L (lit ''2024-05'') = (Some 2024, Some (lit ''2024-2025''))"
    unfolding t by (simp add: r four_digits_lit l d digits_value_lit4 digits_value_lit2
        range_end_year_def py_str_lit)
  show "exam_year_reading L (lit ''2099-00'') = (Some 2099, Some (lit ''2099-2100''))"
    unfolding t by (simp add: r four_digits_lit l d digits_value_lit4 digits_value_lit2
        range_end_year_def py_str_lit)
  show "exam_year_reading L (lit ''2024-2026'') = (Some 2024, Some (lit ''2024-2026''))"
    unfolding t by (simp add: r four_digits_lit l d digits_value_lit4 digits_value_lit2
        range_end_year_def py_str_lit)
  show "exam_year_reading L (lit ''abc'') = (None, None)"
    by (simp add: exam_year_reading_def four_digits_def range_shape_def lit_def)
  show "exam_year_reading L (lit ''2024'' @ 9 # lit ''-25'') = (None, None)"
    by (simp add: exam_year_reading_def four_digits_def range_shape_def lit_def)
qed

section \<open>The exam-year parser: claims C3 and C4\<close>

text \<open>
  C4. A range whose normalised text is four digits, a hyphen and two or four digits is
  read as follows: the start year is the value of the first four digits; a four-digit
  end is taken as written, a two-digit end is put into the century of the start year;
  an end year below the start year is replaced by the start year plus one; the display
  string is start, hyphen, end.
\<close>

theorem range_end_reconstruction:
  assumes "exam_year_text v = g1 @ 45 # g2" and "four_digits L g1"
    and "length g2 = 2 \<or> length g2 = 4" and "list_all (is_decimal L) g2"
  shows "parse_exam_year L v =
           (let start = int (digits_value L g1);
                e = int (digits_value L g2);
                end0 = (if length g2 = 4 then e else start div 100 * 100 + e);
                end1 = (if end0 < start then start + 1 else end0)
            in Inr (Some start, Some (py_str start @ [45] @ py_str end1)))"
proof -
  have l: "length g1 = 4" using assms(2) by (simp add: four_digits_def)
  have nf: "\<not> four_digits L (g1 @ 45 # g2)" using l by (simp add: four_digits_def)
  have rs: "range_shape L (g1 @ 45 # g2)"
    using assms(2-4) l by (simp add: range_shape_def)
  show ?thesis
    using l nf rs
    by (simp add: parse_exam_year_reading assms(1) exam_year_reading_def range_end_year_def Let_def)
qed

theorem range_end_reconstruction_witness:
  "exam_year_text (lit ''2024-05'') = lit ''2024'' @ 45 # lit ''05''
   \<and> four_digits sample_lib (lit ''2024'')
   \<and> (length (lit ''05'') = 2 \<or> length (lit ''05'') = 4)
   \<and> list_all (is_decimal sample_lib) (lit ''05'')
   \<and> parse_exam_year sample_lib (lit ''2024-05'') = Inr (Some 2024, Some (lit ''2024-2025''))
   \<and> parse_exam_year sample_lib (lit ''2099-00'') = Inr (Some 2099, Some (lit ''2099-2100''))"
proof -
  have a: "exam_year_text (lit ''2024-05'') = lit ''2024'' @ 45 # lit ''05''"
    by (simp add: text_examples) (simp add: lit_def)
  have a': "exam_year_text (lit ''2099-00'') = lit ''2099'' @ 45 # lit ''00''"
    by (simp add: text_examples) (simp add: lit_def)
  have b: "four_digits sample_lib (lit ''2024'')" "four_digits sample_lib (lit ''2099'')"
    by (rule four_digits_lit)+
  have c: "length (lit ''05'') = 2 \<or> length (lit ''05'') = 4"
    "length (lit ''00'') = 2 \<or> length (lit ''00'') = 4"
    by (simp_all add: lit_def)
  have d: "list_all (is_decimal sample_lib) (lit ''05'')" "list_all (is_decimal sample_lib) (lit ''00'')"
    by (simp_all add: is_decimal_ascii lit_def)
  have l: "length (lit ''05'') = 2" "length (lit ''00'') = 2" by (simp_all add: lit_def)
  have j: "lit ''2024'' @ 45 # lit ''2025'' = lit ''2024-2025''"
    "lit ''2099'' @ 45 # lit ''2100'' = lit ''2099-2100''" by (simp_all add: lit_def)
  have e: "parse_exam_year sample_lib (lit ''2024-05'') = Inr (Some 2024, Some (lit ''2024-2025''))"
    using range_end_reconstruction [OF a b(1) c(1) d(1)]
    by (simp add: digits_value_lit4 digits_value_lit2 l py_str_lit j)
  have f: "parse_exam_year sample_lib (lit ''2099-00'') = Inr (Some 2099, Some (lit ''2099-2100''))"
    using range_end_reconstruction [OF a' b(2) c(2) d(2)]
    by (simp add: digits_value_lit4 digits_value_lit2 l py_str_lit j)
  show ?thesis using a b c d e f by simp
qed

text \<open>
  C3, as stated, fails. The text \<open>20 24\<close> is neither a bare four-digit year nor a
  range, yet the parser returns the year 2024 for it; and a range written with a tab
  before the hyphen is not recognised.
\<close>

theorem exam_year_exactness_counterexample:
  "\<not> claimed_bare_year sample_lib (lit ''20 24'')
   \<and> \<not> claimed_year_range sample_lib (lit ''20 24'')
   \<and> parse_exam_year sample_lib (lit ''20 24'') = Inr (Some 2024, None)
   \<and> claimed_year_range sample_lib (lit ''2024'' @ 9 # lit ''-25'')
   \<and> parse_exam_year sample_lib (lit ''2024'' @ 9 # lit ''-25'') = Inr (None, None)"
proof -
  have d: "is_decimal sample_lib 50" "is_decimal sample_lib 48" "is_decimal sample_lib 52"
    "is_decimal sample_lib 53" "\<not> is_decimal sample_lib 32" "\<not> is_decimal sample_lib 9"
    "\<not> is_decimal sample_lib 45"
    by (simp_all add: is_decimal_ascii not_decimal_ascii)
  have a: "\<not> claimed_bare_year sample_lib (lit ''20 24'')"
    by (simp add: claimed_bare_year_def lit_def)
  have b: "\<not> claimed_year_range sample_lib (lit ''20 24'')"
    by (simp add: claimed_year_range_def lit_def d)
  have c: "claimed_year_range sample_lib (lit ''2024'' @ 9 # lit ''-25'')"
    by (simp add: claimed_year_range_def lit_def d py_isspace_def)
  show ?thesis
    using a b c by (simp add: parse_exam_year_reading text_examples reading_examples)
qed

text \<open>
  C3, amended. The input is trimmed of surrounding white space, en and em dashes become
  hyphens, and every space character (U+0020) is deleted wherever it stands, also
  between digits; no other white space is deleted. On the resulting text the parser
  never fails and returns: for four digits, the year and no display string; for four
  digits, a hyphen and two or four digits, the start year and the display string; for
  anything else, nothing. The four examples of the claim hold.
\<close>

theorem parse_exam_year_total:
  "parse_exam_year L v =
     Inr (exam_year_reading L (filter (\<lambda>c. c \<noteq> 32) (map hyphenate (py_strip v))))
   \<and> parse_exam_year L (lit ''2024'') = Inr (Some 2024, None)
   \<and> parse_exam_year L (lit ''2024-25'') = Inr (Some 2024, Some (lit ''2024-2025''))
   \<and> parse_exam_year L (lit ''2024'' @ 8211 # lit ''2026'') = Inr (Some 2024, Some (lit ''2024-2026''))
   \<and> parse_exam_year L (lit ''abc'') = Inr (None, None)"
proof -
  have "parse_exam_year L v =
     Inr (exam_year_reading L (filter (\<lambda>c. c \<noteq> 32) (map hyphenate (py_strip v))))"
    by (simp add: parse_exam_year_reading exam_year_text_eq)
  then show ?thesis
    by (simp add: parse_exam_year_reading text_examples reading_examples)
qed

theorem parse_exam_year_total_witness:
  "parse_exam_year sample_lib (lit ''2024 - 25'') = Inr (Some 2024, Some (lit ''2024-2025''))"
proof -
  have "filter (\<lambda>c. c \<noteq> 32) (map hyphenate (py_strip (lit ''2024 - 25''))) = lit ''2024-25''"
    by (simp add: py_strip_def py_isspace_def hyphenate_def lit_def)
  then show ?thesis
    using parse_exam_year_total [of sample_lib "lit ''2024 - 25''"]
    by (simp add: reading_examples)
qed

section \<open>Properties of the path normalisers\<close>












lemma heal_loop_map: "fst (heal_loop ps) = map healed ps"
  by (induction ps) (auto simp: healed_def Let_def split: prod.splits option.splits)

lemma heal_loop_zero: "snd (heal_loop ps) = 0 \<Longrightarrow> map healed ps = ps"
  by (induction ps) (auto simp: healed_def Let_def split: prod.splits option.splits if_splits)

lemma normalize_store: "store (snd (normalize_data_paths w)) = map healed (store w)"
proof (cases "snd (heal_loop (store w)) = 0")
  case True
  then show ?thesis
    using heal_loop_zero [OF True]
    by (auto simp: normalize_data_paths_def load_data_def save_data_def split: prod.splits)
next
  case False
  then show ?thesis
    using heal_loop_map [of "store w"]
    by (auto simp: normalize_data_paths_def load_data_def save_data_def split: prod.splits)
qed
















section \<open>The path normalisers: claim C5\<close>




section \<open>Properties of the record store and of the sample upload\<close>

lemma or_str_lit: "or_str (Some (lit (c # s))) d = lit (c # s)"
  by (simp add: or_str_def lit_def)

lemma py_max_default_Max: "xs \<noteq> [] \<Longrightarrow> py_max_default xs d = Max (set xs)"
  by (cases xs) (simp_all add: py_max_default_def Max.set_eq_fold del: set_simps)

lemma next_id_Nil: "next_id [] = 1"
  by (simp add: next_id_def py_max_default_def)

lemma next_id_nonempty: "coll \<noteq> [] \<Longrightarrow> next_id coll = Max (pid ` set coll) + 1"
  by (simp add: next_id_def py_max_default_Max)

lemma next_id_greater: "p \<in> set coll \<Longrightarrow> pid p < next_id coll"
proof -
  assume a: "p \<in> set coll"
  then have ne: "coll \<noteq> []" by auto
  have "pid p \<le> Max (pid ` set coll)" using a by simp
  then show ?thesis using ne by (simp add: next_id_nonempty)
qed

lemma py_int_lit_1: "py_int L (lit ''1'') = Inr 1"
  using py_int_digits [of "lit ''1''" L]
  by (simp add: lit_def is_decimal_ascii digits_value_def digit_of_ascii)

lemma sample_strip:
  "py_strip (lit ''Physics'') = lit ''Physics''"
  "py_strip (lit ''Mid'') = lit ''Mid''"
  "py_strip (lit ''2023'') = lit ''2023''"
  by (simp_all add: py_strip_def py_isspace_def lit_def)

lemma parse_2023: "parse_exam_year L (lit ''2023'') = Inr (Some 2023, None)"
  by (simp add: parse_exam_year_reading text_examples reading_examples)

lemma upload_sample:
  "filter (\<lambda>f. filename f \<noteq> []) fs0 \<noteq> [] \<Longrightarrow>
   upload L E True POST sample_form fs0 w =
   store_batch L E sample_meta (filter (\<lambda>f. filename f \<noteq> []) fs0) w"
  unfolding upload_def sample_form_def sample_meta_def
  by (simp add: or_str_lit sample_strip parse_2023 lit_Cons_not_Nil py_int_lit_1 Let_def)

lemma sample_allowed: "allowed_file sample_lib (lit ''a.pdf'')"
  by (simp add: allowed_file_def after_last_dot_def ALLOWED_EXTENSIONS_def py_lower_def
        ascii_lower_def sample_lib_def lit_def)

lemma store_batch_single:
  "allowed_file L (filename f) \<Longrightarrow> \<not> unlink_raises E (file_path_of L m (secure_filename L (filename f))) \<Longrightarrow>
   under_upload L (path_parts m (secure_filename L (filename f))) \<Longrightarrow>
   map pid (store (snd (store_batch L E m [f] w))) = map pid (store w) @ [next_id (store w)]"
  by (simp add: store_batch_def upload_file_def load_data_def save_data_def Let_def)

lemma sample_under_upload:
  "under_upload sample_lib (path_parts sample_meta (secure_filename sample_lib (lit ''a.pdf'')))"
  by (simp add: sample_lib_def path_parts_def sample_meta_def absolute_def py_str_def
        dec_digits_small lit_def)

lemma deleted_7: "store (snd (delete_paper sample_env True 7 world_3_7)) = [sample_paper 3 2023 (lit ''Physics'')]"
  by (simp add: delete_paper_def unlink_backing_def load_data_def save_data_def sample_env_def
        world_3_7_def sample_paper_def)

section \<open>Identifiers: claim C1\<close>

text \<open>
  C1, as stated, fails in its last part. With the records 3 and 7 stored, deleting
  record 7 and uploading one file gives the new record the id 4: the id is computed from
  the records that are left.
\<close>

theorem ids_reused_after_deletion:
  "map pid (store (snd (upload sample_lib sample_env True POST sample_form [sample_file ''a.pdf'' 5]
            (snd (delete_paper sample_env True 7 world_3_7))))) = [3, 4]"
proof -
  have f: "filter (\<lambda>f. filename f \<noteq> []) [sample_file ''a.pdf'' 5] = [sample_file ''a.pdf'' 5]"
    by (simp add: sample_file_def lit_def)
  have a: "allowed_file sample_lib (filename (sample_file ''a.pdf'' 5))"
    by (simp add: sample_file_def sample_allowed)
  have u: "\<not> unlink_raises sample_env p" for p
    by (simp add: sample_env_def)
  have i: "under_upload sample_lib
             (path_parts sample_meta (secure_filename sample_lib (filename (sample_file ''a.pdf'' 5))))"
    by (simp add: sample_file_def sample_under_upload)
  have ne: "filter (\<lambda>f. filename f \<noteq> []) [sample_file ''a.pdf'' 5] \<noteq> []"
    unfolding f by simp
  have s: "upload sample_lib sample_env True POST sample_form [sample_file ''a.pdf'' 5] w =
           store_batch sample_lib sample_env sample_meta [sample_file ''a.pdf'' 5] w" for w
    using upload_sample [OF ne] unfolding f .
  have n: "next_id [sample_paper 3 2023 (lit ''Physics'')] = 4"
    by (simp add: next_id_def py_max_default_def sample_paper_def)
  have p: "pid (sample_paper 3 2023 (lit ''Physics'')) = 3"
    by (simp add: sample_paper_def)
  show ?thesis
    unfolding s store_batch_single [OF a u i] deleted_7 by (simp add: n p)
qed

text \<open>
  C1, amended. \<open>next_id\<close> is the largest id among the records now in the collection
  plus one, and 1 for the empty collection; it exceeds every id in the collection. For
  ids 3 and 7 it is 8. An id is not reserved after deletion: once the record with the
  largest id is removed, its id and those above the new maximum are assigned again; with
  record 7 removed from 3 and 7 the next id is 4.
\<close>

theorem next_id_current_max:
  "next_id [] = 1
   \<and> (coll \<noteq> [] \<longrightarrow> next_id coll = Max (pid ` set coll) + 1)
   \<and> (\<forall>p \<in> set coll. pid p < next_id coll)
   \<and> (map pid coll = [3, 7] \<longrightarrow>
        next_id coll = 8 \<and> next_id (filter (\<lambda>p. pid p \<noteq> 7) coll) = 4)"
proof -
  have "next_id coll = 8 \<and> next_id (filter (\<lambda>p. pid p \<noteq> 7) coll) = 4" if "map pid coll = [3, 7]"
  proof -
    from that obtain a b where c: "coll = [a, b]" "pid a = 3" "pid b = 7" by auto
    then show ?thesis by (simp add: next_id_def py_max_default_def)
  qed
  then show ?thesis
    by (simp add: next_id_Nil next_id_nonempty next_id_greater)
qed

theorem next_id_current_max_witness:
  "store world_3_7 \<noteq> [] \<and> map pid (store world_3_7) = [3, 7]
   \<and> (\<exists>p \<in> set (store world_3_7). pid p = 7 \<and> pid p < next_id (store world_3_7))
   \<and> next_id (store world_3_7) = 8
   \<and> next_id (filter (\<lambda>p. pid p \<noteq> 7) (store world_3_7)) = 4"
proof -
  have m: "map pid (store world_3_7) = [3, 7]"
    by (simp add: world_3_7_def sample_paper_def)
  have e: "\<exists>p \<in> set (store world_3_7). pid p = 7"
    by (simp add: world_3_7_def sample_paper_def)
  show ?thesis
    using m e next_id_current_max [of "store world_3_7"] by auto
qed

section \<open>Properties of the listing\<close>

lemma keeps_iff:
  "keeps L yr sem subj et p \<longleftrightarrow>
     (yr = None \<or> yr = Some (year p)) \<and> (sem = None \<or> sem = Some (semester p))
     \<and> (subj = [] \<or> py_lower L (subject p) = py_lower L subj)
     \<and> (et = [] \<or> exam_type p = et)"
  by (auto simp: keeps_def)

lemma listing_key_le:
  "listing_key p \<le> listing_key q \<longleftrightarrow>
     exam_year q < exam_year p
     \<or> (exam_year p = exam_year q
        \<and> (subject p < subject q \<or> (subject p = subject q \<and> exam_type p \<le> exam_type q)))"
  by (auto simp: listing_key_def)

lemma sorted_filter_sort:
  "sorted_wrt (\<lambda>p q. listing_key p \<le> listing_key q) (filter_sort L yr sem subj et coll)"
proof -
  have "sorted (map listing_key (filter_sort L yr sem subj et coll))"
    by (simp add: filter_sort_def)
  then show ?thesis by (simp add: sorted_map)
qed

lemma mset_filter_sort:
  "mset (filter_sort L yr sem subj et coll) = filter_mset (keeps L yr sem subj et) (mset coll)"
  by (simp add: filter_sort_def)

lemma papers_list_papers:
  "fst (fst (papers_list L args w)) =
     filter_sort L (int_filter L (py_strip (or_str (a_year args) [])))
       (int_filter L (py_strip (or_str (a_semester args) [])))
       (py_strip (or_str (a_subject args) [])) (py_strip (or_str (a_exam_type args) [])) (store w)"
  by (simp add: papers_list_def load_data_def Let_def)

lemma py_strip_Nil: "py_strip [] = []"
  by (simp add: py_strip_def)

lemma int_filter_unparsable:
  "py_int L (py_strip ys) = Inl ValueError \<Longrightarrow> int_filter L (py_strip (or_str (Some ys) [])) = None"
  by (simp add: int_filter_def or_str_def py_strip_Nil)

lemma int_filter_absent: "int_filter L (py_strip (or_str None [])) = None"
  by (simp add: int_filter_def or_str_def py_strip_Nil)

lemma py_int_abc: "py_int L (lit ''abc'') = Inl ValueError"
  using not_decimal_ascii [of 97 L]
  by (simp add: py_int_def int_sign_def int_space_def lit_def)

lemma py_strip_abc: "py_strip (lit ''abc'') = lit ''abc''"
  by (simp add: py_strip_def py_isspace_def lit_def)

lemma sort_three:
  "map exam_year (filter_sort L None None [] []
      [sample_paper 1 2023 s, sample_paper 2 2025 s, sample_paper 3 2024 s]) = [2025, 2024, 2023]"
  by (simp add: filter_sort_def keeps_def listing_key_def sample_paper_def)

lemma maths_matches:
  "keeps L None None (lit ''Maths'') [] (sample_paper 1 2023 (lit ''maths''))"
  by (simp add: keeps_def sample_paper_def py_lower_def ascii_lower_def lit_def)

lemma world_3_7_listing:
  "map pid (filter_sort sample_lib yr None subj [] (store world_3_7)) = [7, 3]"
  if "yr = None \<or> yr = Some 1" and "subj = [] \<or> py_lower sample_lib subj = lit ''physics''"
proof -
  have l: "py_lower sample_lib (lit ''Physics'') = lit ''physics''"
    by (simp add: py_lower_def ascii_lower_def lit_def)
  have k: "keeps sample_lib yr None subj [] (sample_paper i ey (lit ''Physics''))" for i ey
    using that by (auto simp: keeps_iff sample_paper_def l)
  show ?thesis
    by (simp add: filter_sort_def world_3_7_def k) (simp add: listing_key_def sample_paper_def)
qed

lemma py_strip_no_space: "list_all (\<lambda>c. \<not> py_isspace c) s \<Longrightarrow> py_strip s = s"
proof -
  assume a: "list_all (\<lambda>c. \<not> py_isspace c) s"
  have d: "dropWhile py_isspace t = t" if "list_all (\<lambda>c. \<not> py_isspace c) t" for t
    using that by (cases t) auto
  have r: "list_all (\<lambda>c. \<not> py_isspace c) (rev s)" using a by (simp add: list_all_iff)
  show ?thesis by (simp add: py_strip_def d [OF a] d [OF r])
qed

lemma py_strip_py_str: "0 \<le> y \<Longrightarrow> py_strip (py_str y) = py_str y"
proof -
  assume y: "0 \<le> y"
  have "list_all (\<lambda>c. \<not> py_isspace c) (dec_digits (nat y))"
    using dec_digits_ascii [of "nat y"] by (auto simp: list_all_iff py_isspace_def)
  then show ?thesis using y by (simp add: py_str_def py_strip_no_space)
qed

lemma py_str_not_Nil: "py_str y \<noteq> []"
  by (simp add: py_str_def dec_digits_not_Nil)

lemma int_filter_py_str:
  assumes "0 \<le> y" and "y < 100000"
  shows "int_filter L (py_strip (or_str (Some (py_str y)) [])) = Some y"
proof -
  have o: "or_str (Some (py_str y)) [] = py_str y"
    by (simp add: or_str_def py_str_not_Nil)
  show ?thesis
    unfolding o py_strip_py_str [OF assms(1)]
    by (simp add: int_filter_def py_str_not_Nil py_int_py_str [OF assms])
qed

lemma int_filter_empty: "int_filter L (py_strip (or_str (Some []) [])) = None"
  by (simp add: int_filter_def or_str_def py_strip_Nil)

lemma papers_list_year_semester:
  assumes "0 \<le> y" and "y < 100000" and "0 \<le> z" and "z < 100000"
  shows "mset (fst (fst (papers_list L
            \<lparr>a_year = Some (py_str y), a_semester = Some (py_str z),
             a_subject = None, a_exam_type = None\<rparr> w)))
         = filter_mset (\<lambda>p. year p = y \<and> semester p = z) (mset (store w))"
proof -
  have "mset (fst (fst (papers_list L
            \<lparr>a_year = Some (py_str y), a_semester = Some (py_str z),
             a_subject = None, a_exam_type = None\<rparr> w)))
        = filter_mset (keeps L (Some y) (Some z) [] []) (mset (store w))"
    by (simp add: papers_list_papers or_str_def py_str_not_Nil py_strip_Nil mset_filter_sort
          py_strip_py_str [OF assms(1)] py_strip_py_str [OF assms(3)] int_filter_def
          py_int_py_str [OF assms(1,2)] py_int_py_str [OF assms(3,4)])
  also have "\<dots> = filter_mset (\<lambda>p. year p = y \<and> semester p = z) (mset (store w))"
    by (rule filter_mset_cong) (auto simp: keeps_iff)
  finally show ?thesis .
qed

lemma papers_list_year_only:
  assumes "0 \<le> y" and "y < 100000"
  shows "mset (fst (fst (papers_list L
            \<lparr>a_year = Some (py_str y), a_semester = None,
             a_subject = None, a_exam_type = None\<rparr> w)))
         = filter_mset (\<lambda>p. year p = y) (mset (store w))"
proof -
  have "mset (fst (fst (papers_list L
            \<lparr>a_year = Some (py_str y), a_semester = None,
             a_subject = None, a_exam_type = None\<rparr> w)))
        = filter_mset (keeps L (Some y) None [] []) (mset (store w))"
    by (simp add: papers_list_papers or_str_def py_str_not_Nil py_strip_Nil mset_filter_sort
          py_strip_py_str [OF assms(1)] int_filter_def py_int_py_str [OF assms(1,2)])
  also have "\<dots> = filter_mset (\<lambda>p. year p = y) (mset (store w))"
    by (rule filter_mset_cong) (auto simp: keeps_iff)
  finally show ?thesis .
qed

lemma papers_list_semester_only:
  assumes "0 \<le> z" and "z < 100000"
  shows "mset (fst (fst (papers_list L
            \<lparr>a_year = None, a_semester = Some (py_str z),
             a_subject = None, a_exam_type = None\<rparr> w)))
         = filter_mset (\<lambda>p. semester p = z) (mset (store w))"
proof -
  have "mset (fst (fst (papers_list L
            \<lparr>a_year = None, a_semester = Some (py_str z),
             a_subject = None, a_exam_type = None\<rparr> w)))
        = filter_mset (keeps L None (Some z) [] []) (mset (store w))"
    by (simp add: papers_list_papers or_str_def py_str_not_Nil py_strip_Nil mset_filter_sort
          py_strip_py_str [OF assms(1)] int_filter_def py_int_py_str [OF assms(1,2)])
  also have "\<dots> = filter_mset (\<lambda>p. semester p = z) (mset (store w))"
    by (rule filter_mset_cong) (auto simp: keeps_iff)
  finally show ?thesis .
qed

lemma py_str_small: "py_str 2 = lit ''2''" "py_str 3 = lit ''3''"
  by (simp_all add: py_str_def dec_digits_small lit_def)

lemma world_years_filter:
  "filter_mset (\<lambda>p. year p = 2 \<and> semester p = 3) (mset (store world_years))
     = {#(sample_paper 2 2024 (lit ''Physics''))\<lparr>year := 2, semester := 3\<rparr>#}"
  "filter_mset (\<lambda>p. year p = 2) (mset (store world_years))
     = {#(sample_paper 2 2024 (lit ''Physics''))\<lparr>year := 2, semester := 3\<rparr>,
         (sample_paper 3 2025 (lit ''Physics''))\<lparr>year := 2, semester := 4\<rparr>#}"
  "filter_mset (\<lambda>p. semester p = 3) (mset (store world_years))
     = {#(sample_paper 2 2024 (lit ''Physics''))\<lparr>year := 2, semester := 3\<rparr>#}"
  "size (mset (store world_years)) = 3"
  by (simp_all add: world_years_def sample_paper_def)

section \<open>The listing: claims C6 and C10\<close>

text \<open>
  C6. The listing returns exactly the records of the collection that match every
  supplied filter, each as often as it occurs: year, semester and exam type by equality,
  the subject by equality of the lower-cased strings; a filter is not supplied when it
  is absent (for the strings: empty after trimming). The result is ordered by exam year
  descending, then subject ascending, then exam type ascending, strings compared by
  code points. \<open>papers_list\<close> applies this to the trimmed query arguments: a year or a
  semester written in decimal filters on its value, so that the listing for the year
  text of \<open>y\<close> and the semester text of \<open>z\<close> holds exactly the records of year \<open>y\<close> and
  semester \<open>z\<close>, and an absent or empty year or semester is no filter. Records with
  exam years 2023, 2025, 2024 and equal subject and type come out as 2025, 2024, 2023;
  the filter \<open>Maths\<close> matches the stored subject \<open>maths\<close>.
\<close>

theorem listing_filter_and_order:
  "mset (filter_sort L yr sem subj et coll) =
     filter_mset (\<lambda>p. (yr = None \<or> yr = Some (year p)) \<and> (sem = None \<or> sem = Some (semester p))
                     \<and> (subj = [] \<or> py_lower L (subject p) = py_lower L subj)
                     \<and> (et = [] \<or> exam_type p = et)) (mset coll)
   \<and> sorted_wrt (\<lambda>p q. exam_year q < exam_year p
                   \<or> (exam_year p = exam_year q
                      \<and> (subject p < subject q
                         \<or> (subject p = subject q \<and> exam_type p \<le> exam_type q))))
        (filter_sort L yr sem subj et coll)
   \<and> fst (fst (papers_list L args w)) =
       filter_sort L (int_filter L (py_strip (or_str (a_year args) [])))
         (int_filter L (py_strip (or_str (a_semester args) [])))
         (py_strip (or_str (a_subject args) [])) (py_strip (or_str (a_exam_type args) [])) (store w)
   \<and> (0 \<le> y \<and> y < 100000 \<longrightarrow> int_filter L (py_strip (or_str (Some (py_str y)) [])) = Some y)
   \<and> int_filter L (py_strip (or_str None [])) = None
   \<and> int_filter L (py_strip (or_str (Some []) [])) = None
   \<and> (0 \<le> y \<and> y < 100000 \<and> 0 \<le> z \<and> z < 100000 \<longrightarrow>
        mset (fst (fst (papers_list L
            \<lparr>a_year = Some (py_str y), a_semester = Some (py_str z),
             a_subject = None, a_exam_type = None\<rparr> w)))
         = filter_mset (\<lambda>p. year p = y \<and> semester p = z) (mset (store w)))
   \<and> (0 \<le> y \<and> y < 100000 \<longrightarrow>
        mset (fst (fst (papers_list L
            \<lparr>a_year = Some (py_str y), a_semester = None,
             a_subject = None, a_exam_type = None\<rparr> w)))
         = filter_mset (\<lambda>p. year p = y) (mset (store w)))
   \<and> (0 \<le> z \<and> z < 100000 \<longrightarrow>
        mset (fst (fst (papers_list L
            \<lparr>a_year = None, a_semester = Some (py_str z),
             a_subject = None, a_exam_type = None\<rparr> w)))
         = filter_mset (\<lambda>p. semester p = z) (mset (store w)))
   \<and> map exam_year (filter_sort L None None [] []
         [sample_paper 1 2023 s, sample_paper 2 2025 s, sample_paper 3 2024 s]) = [2025, 2024, 2023]
   \<and> keeps L None None (lit ''Maths'') [] (sample_paper 1 2023 (lit ''maths''))"
proof -
  have a: "mset (filter_sort L yr sem subj et coll) =
     filter_mset (\<lambda>p. (yr = None \<or> yr = Some (year p)) \<and> (sem = None \<or> sem = Some (semester p))
                     \<and> (subj = [] \<or> py_lower L (subject p) = py_lower L subj)
                     \<and> (et = [] \<or> exam_type p = et)) (mset coll)"
    unfolding mset_filter_sort by (rule filter_mset_cong) (simp_all add: keeps_iff)
  have b: "sorted_wrt (\<lambda>p q. exam_year q < exam_year p
                   \<or> (exam_year p = exam_year q
                      \<and> (subject p < subject q
                         \<or> (subject p = subject q \<and> exam_type p \<le> exam_type q))))
        (filter_sort L yr sem subj et coll)"
    using sorted_filter_sort [of L yr sem subj et coll] by (simp add: listing_key_le)
  have c: "0 \<le> y \<and> y < 100000 \<longrightarrow> int_filter L (py_strip (or_str (Some (py_str y)) [])) = Some y"
    using int_filter_py_str by blast
  have d: "0 \<le> y \<and> y < 100000 \<and> 0 \<le> z \<and> z < 100000 \<longrightarrow>
        mset (fst (fst (papers_list L
            \<lparr>a_year = Some (py_str y), a_semester = Some (py_str z),
             a_subject = None, a_exam_type = None\<rparr> w)))
         = filter_mset (\<lambda>p. year p = y \<and> semester p = z) (mset (store w))"
    using papers_list_year_semester by blast
  have e: "0 \<le> y \<and> y < 100000 \<longrightarrow>
        mset (fst (fst (papers_list L
            \<lparr>a_year = Some (py_str y), a_semester = None,
             a_subject = None, a_exam_type = None\<rparr> w)))
         = filter_mset (\<lambda>p. year p = y) (mset (store w))"
    using papers_list_year_only by blast
  have f: "0 \<le> z \<and> z < 100000 \<longrightarrow>
        mset (fst (fst (papers_list L
            \<lparr>a_year = None, a_semester = Some (py_str z),
             a_subject = None, a_exam_type = None\<rparr> w)))
         = filter_mset (\<lambda>p. semester p = z) (mset (store w))"
    using papers_list_semester_only by blast
  show ?thesis
    by (intro conjI a b papers_list_papers c int_filter_absent int_filter_empty d e f
          sort_three maths_matches)
qed

theorem listing_filter_and_order_witness:
  "(0::int) \<le> 2 \<and> (2::int) < 100000 \<and> (0::int) \<le> 3 \<and> (3::int) < 100000
   \<and> size (mset (store world_years)) = 3
   \<and> mset (fst (fst (papers_list sample_lib
        \<lparr>a_year = Some (lit ''2''), a_semester = Some (lit ''3''),
         a_subject = None, a_exam_type = None\<rparr> world_years)))
      = {#(sample_paper 2 2024 (lit ''Physics''))\<lparr>year := 2, semester := 3\<rparr>#}
   \<and> mset (fst (fst (papers_list sample_lib
        \<lparr>a_year = Some (lit ''2''), a_semester = None,
         a_subject = None, a_exam_type = None\<rparr> world_years)))
      = {#(sample_paper 2 2024 (lit ''Physics''))\<lparr>year := 2, semester := 3\<rparr>,
          (sample_paper 3 2025 (lit ''Physics''))\<lparr>year := 2, semester := 4\<rparr>#}
   \<and> mset (fst (fst (papers_list sample_lib
        \<lparr>a_year = None, a_semester = Some (lit ''3''),
         a_subject = None, a_exam_type = None\<rparr> world_years)))
      = {#(sample_paper 2 2024 (lit ''Physics''))\<lparr>year := 2, semester := 3\<rparr>#}
   \<and> map pid (fst (fst (papers_list sample_lib sample_args world_3_7))) = [7, 3]
   \<and> map exam_year (fst (fst (papers_list sample_lib sample_args world_3_7))) = [2024, 2023]"
proof -
  note T = listing_filter_and_order [of sample_lib None None "[]" "[]" "[]" sample_args world_3_7 2 3 "[]"]
  note U = listing_filter_and_order [of sample_lib None None "[]" "[]" "[]" sample_args world_years 2 3 "[]"]
  have r: "(0::int) \<le> 2 \<and> (2::int) < 100000 \<and> (0::int) \<le> 3 \<and> (3::int) < 100000" by simp
  have r2: "(0::int) \<le> 2 \<and> (2::int) < 100000" by simp
  have r3: "(0::int) \<le> 3 \<and> (3::int) < 100000" by simp
  have u1: "mset (fst (fst (papers_list sample_lib
        \<lparr>a_year = Some (py_str 2), a_semester = Some (py_str 3),
         a_subject = None, a_exam_type = None\<rparr> world_years)))
      = filter_mset (\<lambda>p. year p = 2 \<and> semester p = 3) (mset (store world_years))"
    using U r by blast
  have u2: "mset (fst (fst (papers_list sample_lib
        \<lparr>a_year = Some (py_str 2), a_semester = None,
         a_subject = None, a_exam_type = None\<rparr> world_years)))
      = filter_mset (\<lambda>p. year p = 2) (mset (store world_years))"
    using U r2 by blast
  have u3: "mset (fst (fst (papers_list sample_lib
        \<lparr>a_year = None, a_semester = Some (py_str 3),
         a_subject = None, a_exam_type = None\<rparr> world_years)))
      = filter_mset (\<lambda>p. semester p = 3) (mset (store world_years))"
    using U r3 by blast
  note v1 = u1 [unfolded py_str_small world_years_filter]
  note v2 = u2 [unfolded py_str_small world_years_filter]
  note v3 = u3 [unfolded py_str_small world_years_filter]
  have y1: "py_strip (lit ''1'') = lit ''1''"
    by (simp add: py_strip_def py_isspace_def lit_def)
  have y: "int_filter sample_lib (py_strip (or_str (a_year sample_args) [])) = Some 1"
    by (simp add: sample_args_def or_str_lit y1 int_filter_def lit_Cons_not_Nil py_int_lit_1)
  have s: "int_filter sample_lib (py_strip (or_str (a_semester sample_args) [])) = None"
    by (simp add: sample_args_def int_filter_absent)
  have j: "py_strip (or_str (a_subject sample_args) []) = lit ''PHYSICS''"
    by (simp add: sample_args_def or_str_lit) (simp add: py_strip_def py_isspace_def lit_def)
  have e: "py_strip (or_str (a_exam_type sample_args) []) = []"
    by (simp add: sample_args_def or_str_def py_strip_Nil)
  have l: "py_lower sample_lib (lit ''PHYSICS'') = lit ''physics''"
    by (simp add: py_lower_def ascii_lower_def lit_def)
  have p: "fst (fst (papers_list sample_lib sample_args world_3_7)) =
           filter_sort sample_lib (Some 1) None (lit ''PHYSICS'') [] (store world_3_7)"
    using T [THEN conjunct2, THEN conjunct2, THEN conjunct1]
    by (simp add: y s j e)
  have i: "map pid (filter_sort sample_lib (Some 1) None (lit ''PHYSICS'') [] (store world_3_7)) = [7, 3]"
    by (rule world_3_7_listing) (simp_all add: l)
  have x: "map exam_year (filter_sort sample_lib (Some 1) None (lit ''PHYSICS'') [] (store world_3_7)) = [2024, 2023]"
  proof -
    have k: "keeps sample_lib (Some 1) None (lit ''PHYSICS'') [] (sample_paper n ey (lit ''Physics''))" for n ey
      by (simp add: keeps_iff sample_paper_def l) (simp add: py_lower_def ascii_lower_def lit_def)
    show ?thesis
      by (simp add: filter_sort_def world_3_7_def k) (simp add: listing_key_def sample_paper_def)
  qed
  have i2: "map pid (fst (fst (papers_list sample_lib sample_args world_3_7))) = [7, 3]"
    unfolding p by (rule i)
  have x2: "map exam_year (fst (fst (papers_list sample_lib sample_args world_3_7))) = [2024, 2023]"
    unfolding p by (rule x)
  have n: "(0::int) \<le> 2" "(2::int) < 100000" "(0::int) \<le> 3" "(3::int) < 100000" by simp_all
  show ?thesis
    by (intro conjI n world_years_filter(4) v1 v2 v3 i2 x2)
qed

text \<open>
  C10. A year or semester argument that \<open>int\<close> rejects is treated as absent: the
  listing is the one without that filter. This holds for \<open>abc\<close>. The listing has no
  failing outcome for any text of these arguments, and it only reads the collection.
\<close>

theorem unparsable_filter_ignored:
  "(py_int L (py_strip ys) = Inl ValueError \<longrightarrow>
      papers_list L (args\<lparr>a_year := Some ys\<rparr>) w = papers_list L (args\<lparr>a_year := None\<rparr>) w)
   \<and> (py_int L (py_strip ss) = Inl ValueError \<longrightarrow>
      papers_list L (args\<lparr>a_semester := Some ss\<rparr>) w = papers_list L (args\<lparr>a_semester := None\<rparr>) w)
   \<and> py_int L (py_strip (lit ''abc'')) = Inl ValueError
   \<and> papers_list L (args\<lparr>a_year := Some (lit ''abc'')\<rparr>) w = papers_list L (args\<lparr>a_year := None\<rparr>) w
   \<and> snd (papers_list L args w) = w\<lparr>trace := trace w @ [LoadData]\<rparr>"
proof -
  have a: "papers_list L (args\<lparr>a_year := Some ys\<rparr>) w = papers_list L (args\<lparr>a_year := None\<rparr>) w"
    if "py_int L (py_strip ys) = Inl ValueError" for ys
    using that by (simp add: papers_list_def int_filter_unparsable int_filter_absent)
  have b: "papers_list L (args\<lparr>a_semester := Some ss\<rparr>) w = papers_list L (args\<lparr>a_semester := None\<rparr>) w"
    if "py_int L (py_strip ss) = Inl ValueError"
    using that by (simp add: papers_list_def int_filter_unparsable int_filter_absent)
  have c: "py_int L (py_strip (lit ''abc'')) = Inl ValueError"
    by (simp add: py_strip_abc py_int_abc)
  have d: "snd (papers_list L args w) = w\<lparr>trace := trace w @ [LoadData]\<rparr>"
    by (simp add: papers_list_def load_data_def Let_def)
  show ?thesis using a [of ys] a [OF c] b c d by blast
qed

theorem unparsable_filter_ignored_witness:
  "py_int sample_lib (py_strip (lit ''abc'')) = Inl ValueError
   \<and> py_int sample_lib (py_strip (lit ''x1'')) = Inl ValueError
   \<and> papers_list sample_lib (sample_args\<lparr>a_year := Some (lit ''abc'')\<rparr>) world_3_7
       = papers_list sample_lib (sample_args\<lparr>a_year := None\<rparr>) world_3_7
   \<and> papers_list sample_lib (sample_args\<lparr>a_semester := Some (lit ''x1'')\<rparr>) world_3_7
       = papers_list sample_lib (sample_args\<lparr>a_semester := None\<rparr>) world_3_7"
proof -
  have x: "py_int sample_lib (py_strip (lit ''x1'')) = Inl ValueError"
    using not_decimal_ascii [of 120 sample_lib]
    by (simp add: py_strip_def py_isspace_def py_int_def int_sign_def int_space_def lit_def)
  show ?thesis
    using x unparsable_filter_ignored [of sample_lib "lit ''abc''" sample_args world_3_7 "lit ''x1''"]
    by simp
qed

section \<open>Deletion: claim C8\<close>

lemma delete_absent:
  "k \<notin> pid ` set (store w) \<Longrightarrow>
   delete_paper E True k w = (Not_found, w\<lparr>trace := trace w @ [LoadData]\<rparr>)"
proof -
  assume "k \<notin> pid ` set (store w)"
  then have "find (\<lambda>p. pid p = k) (store w) = None"
    by (auto simp: find_None_iff)
  then show ?thesis by (simp add: delete_paper_def load_data_def)
qed

lemma delete_present:
  assumes "find (\<lambda>p. pid p = k) (store w) = Some r"
  shows "delete_paper E True k w =
           (Deleted (fst (unlink_backing E r (w\<lparr>trace := trace w @ [LoadData]\<rparr>))),
            save_data (filter (\<lambda>p. pid p \<noteq> k) (store w))
              (snd (unlink_backing E r (w\<lparr>trace := trace w @ [LoadData]\<rparr>))))"
  using assms by (simp add: delete_paper_def load_data_def split: prod.splits)

lemma unlink_backing_warned:
  "fst (unlink_backing E r w) \<longleftrightarrow> (\<exists>rel. stored_path r = Some rel \<and> rel \<noteq> [] \<and> unlink_raises E rel)"
  by (auto simp: unlink_backing_def split: option.splits)

lemma unlink_backing_store: "store (snd (unlink_backing E r w)) = store w"
  by (simp add: unlink_backing_def split: option.splits)

lemma unlink_backing_trace:
  "\<exists>evs. trace (snd (unlink_backing E r w)) = trace w @ evs \<and> SaveData \<notin> set evs"
  by (auto simp: unlink_backing_def split: option.splits)

lemma unlink_backing_missing:
  "stored_path r = Some rel \<Longrightarrow> files w rel = None \<Longrightarrow> \<not> unlink_raises E rel \<Longrightarrow>
   files (snd (unlink_backing E r w)) = files w"
  by (auto simp: unlink_backing_def)

text \<open>
  C8. Deleting an id that no record has reports not-found and changes nothing but the
  log, which gains the read of the collection: nothing is unlinked and nothing is saved.
  Deleting an id that a record has removes every record with that id and saves the
  collection once, at the end, whatever \<open>unlink\<close> does: a failing \<open>unlink\<close> shows only
  in the warning flag of the response, and a missing file leaves the files as they are.
  Without the admin session nothing happens.
\<close>

theorem deletion_contract:
  "(k \<notin> pid ` set (store w) \<longrightarrow>
      delete_paper E True k w = (Not_found, w\<lparr>trace := trace w @ [LoadData]\<rparr>))
   \<and> (find (\<lambda>p. pid p = k) (store w) = Some r \<longrightarrow>
        fst (delete_paper E True k w) =
          Deleted (\<exists>rel. stored_path r = Some rel \<and> rel \<noteq> [] \<and> unlink_raises E rel)
        \<and> store (snd (delete_paper E True k w)) = filter (\<lambda>p. pid p \<noteq> k) (store w)
        \<and> k \<notin> pid ` set (store (snd (delete_paper E True k w)))
        \<and> (\<exists>evs. trace (snd (delete_paper E True k w)) = trace w @ LoadData # evs @ [SaveData]
                  \<and> SaveData \<notin> set evs)
        \<and> (\<forall>rel. stored_path r = Some rel \<and> files w rel = None \<and> \<not> unlink_raises E rel \<longrightarrow>
                  files (snd (delete_paper E True k w)) = files w))
   \<and> (k \<in> pid ` set (store w) \<longrightarrow> (\<exists>r. find (\<lambda>p. pid p = k) (store w) = Some r))
   \<and> delete_paper E False k w = (Delete_login, w)"
proof -
  let ?w1 = "w\<lparr>trace := trace w @ [LoadData]\<rparr>"
  have found: "fst (delete_paper E True k w) =
          Deleted (\<exists>rel. stored_path r = Some rel \<and> rel \<noteq> [] \<and> unlink_raises E rel)
        \<and> store (snd (delete_paper E True k w)) = filter (\<lambda>p. pid p \<noteq> k) (store w)
        \<and> k \<notin> pid ` set (store (snd (delete_paper E True k w)))
        \<and> (\<exists>evs. trace (snd (delete_paper E True k w)) = trace w @ LoadData # evs @ [SaveData]
                  \<and> SaveData \<notin> set evs)
        \<and> (\<forall>rel. stored_path r = Some rel \<and> files w rel = None \<and> \<not> unlink_raises E rel \<longrightarrow>
                  files (snd (delete_paper E True k w)) = files w)"
    if f: "find (\<lambda>p. pid p = k) (store w) = Some r"
  proof -
    note d = delete_present [OF f, of E]
    obtain evs where evs: "trace (snd (unlink_backing E r ?w1)) = trace ?w1 @ evs" "SaveData \<notin> set evs"
      using unlink_backing_trace [of E r ?w1] by blast
    have t: "trace (snd (delete_paper E True k w)) = trace w @ LoadData # evs @ [SaveData]"
      by (simp add: d save_data_def evs)
    have m: "files (snd (delete_paper E True k w)) = files w"
      if "stored_path r = Some rel" "files w rel = None" "\<not> unlink_raises E rel" for rel
      using unlink_backing_missing [of r rel ?w1 E] that by (simp add: d save_data_def)
    show ?thesis
      using t evs(2) m
      by (auto simp: d save_data_def unlink_backing_warned)
  qed
  have ex: "\<exists>r. find (\<lambda>p. pid p = k) (store w) = Some r" if "k \<in> pid ` set (store w)"
  proof (cases "find (\<lambda>p. pid p = k) (store w)")
    case None
    then show ?thesis using that by (auto simp: find_None_iff)
  next
    case (Some a)
    then show ?thesis by simp
  qed
  have na: "delete_paper E False k w = (Delete_login, w)"
    by (simp add: delete_paper_def)
  show ?thesis
    using found ex delete_absent [of k w E] na by blast
qed

theorem deletion_contract_witness:
  "5 \<notin> pid ` set (store world_3_7)
   \<and> delete_paper locked_env True 5 world_3_7 = (Not_found, world_3_7\<lparr>trace := [LoadData]\<rparr>)
   \<and> 7 \<in> pid ` set (store world_3_7)
   \<and> find (\<lambda>p. pid p = 7) (store world_3_7) = Some (sample_paper 7 2024 (lit ''Physics''))
   \<and> fst (delete_paper locked_env True 7 world_3_7) = Deleted True
   \<and> map pid (store (snd (delete_paper locked_env True 7 world_3_7))) = [3]
   \<and> stored_path (sample_paper 7 2024 (lit ''Physics'')) = Some (lit ''1/1/x/Mid/q.pdf'')
   \<and> files world_3_7 (lit ''1/1/x/Mid/q.pdf'') = None
   \<and> \<not> unlink_raises sample_env (lit ''1/1/x/Mid/q.pdf'')
   \<and> fst (delete_paper sample_env True 7 world_3_7) = Deleted False
   \<and> files (snd (delete_paper sample_env True 7 world_3_7)) = files world_3_7"
proof -
  have a: "5 \<notin> pid ` set (store world_3_7)" "7 \<in> pid ` set (store world_3_7)"
    by (simp_all add: world_3_7_def sample_paper_def)
  have f: "find (\<lambda>p. pid p = 7) (store world_3_7) = Some (sample_paper 7 2024 (lit ''Physics''))"
    by (simp add: world_3_7_def sample_paper_def)
  have s: "stored_path (sample_paper 7 2024 (lit ''Physics'')) = Some (lit ''1/1/x/Mid/q.pdf'')"
    by (simp add: sample_paper_def)
  have n: "lit ''1/1/x/Mid/q.pdf'' \<noteq> []" by (rule lit_Cons_not_Nil)
  have u: "unlink_raises locked_env (lit ''1/1/x/Mid/q.pdf'')"
    "\<not> unlink_raises sample_env (lit ''1/1/x/Mid/q.pdf'')"
    by (simp_all add: locked_env_def sample_env_def)
  have m: "files world_3_7 (lit ''1/1/x/Mid/q.pdf'') = None"
    by (simp add: world_3_7_def)
  have t: "trace world_3_7 = []" by (simp add: world_3_7_def)
  have p: "map pid (filter (\<lambda>p. pid p \<noteq> 7) (store world_3_7)) = [3]"
    by (simp add: world_3_7_def sample_paper_def)
  show ?thesis
    using a f s n u m p
      deletion_contract [of 5 world_3_7 locked_env "sample_paper 7 2024 (lit ''Physics'')"]
      deletion_contract [of 7 world_3_7 locked_env "sample_paper 7 2024 (lit ''Physics'')"]
      deletion_contract [of 7 world_3_7 sample_env "sample_paper 7 2024 (lit ''Physics'')"]
    by (simp add: t)
qed

section \<open>Properties of the upload loop\<close>

lemma upload_file_unsupported:
  "\<not> allowed_file L (filename f) \<Longrightarrow>
   upload_file L E m f st =
     Inr (st\<lparr>warnings := warnings st @ [Unsupported_type (filename f)],
             skipped_count := skipped_count st + 1\<rparr>)"
  by (simp add: upload_file_def)

lemma upload_file_stale:
  "allowed_file L (filename f) \<Longrightarrow> files (disk st) (destination L m f) \<noteq> None \<Longrightarrow>
   unlink_raises E (destination L m f) \<Longrightarrow>
   upload_file L E m f st =
     Inr (st\<lparr>warnings := warnings st @ [Stale_duplicate (secure_filename L (filename f))],
             skipped_count := skipped_count st + 1,
             disk := (disk st)\<lparr>trace := trace (disk st) @ [UnlinkFailed (destination L m f)]\<rparr>\<rparr>)"
  by (simp add: upload_file_def destination_def Let_def)

lemma upload_file_rejected:
  assumes "\<not> accepts L E m (files (disk st)) f"
  shows "\<exists>st1. upload_file L E m f st = Inr st1
       \<and> u_data st1 = u_data st
       \<and> saved_count st1 = saved_count st
       \<and> skipped_count st1 = skipped_count st + 1
       \<and> files (disk st1) = files (disk st)
       \<and> store (disk st1) = store (disk st)
       \<and> (\<exists>evs. trace (disk st1) = trace (disk st) @ evs \<and> SaveData \<notin> set evs)
       \<and> length (warnings st1) = length (warnings st) + 1"
proof (cases "allowed_file L (filename f)")
  case False
  then show ?thesis by (simp add: upload_file_unsupported)
next
  case True
  with assms have "files (disk st) (destination L m f) \<noteq> None" "unlink_raises E (destination L m f)"
    by (auto simp: accepts_def)
  then show ?thesis by (simp add: upload_file_stale [OF True])
qed

lemma upload_file_accepted:
  assumes "accepts L E m (files (disk st)) f" and "inside L m f"
  shows "\<exists>st1 r. upload_file L E m f st = Inr st1
          \<and> u_data st1 = u_data st @ [r]
          \<and> pid r = next_id (u_data st) \<and> original_filename r = filename f
          \<and> stored_path r = Some (destination L m f)
          \<and> year r = m_year m \<and> semester r = m_semester m \<and> subject r = m_subject m
          \<and> exam_type r = m_exam_type m \<and> exam_year r = m_exam_year m
          \<and> academic_year r = m_academic_year m
          \<and> saved_count st1 = saved_count st + 1
          \<and> skipped_count st1 = skipped_count st
          \<and> files (disk st1) = (files (disk st))(destination L m f \<mapsto> payload f)
          \<and> store (disk st1) = store (disk st)
          \<and> (\<exists>evs. trace (disk st1) = trace (disk st) @ evs \<and> SaveData \<notin> set evs)
          \<and> warnings st1 = warnings st"
  using assms by (auto simp: upload_file_def accepts_def inside_def destination_def Let_def)

lemma upload_file_escapes:
  assumes "accepts L E m (files (disk st)) f" and "\<not> inside L m f"
  shows "\<exists>d. upload_file L E m f st = Inl (ValueError, d)
          \<and> files d = (files (disk st))(destination L m f \<mapsto> payload f)
          \<and> store d = store (disk st)
          \<and> (\<exists>evs. trace d = trace (disk st) @ evs \<and> SaveData \<notin> set evs)"
  using assms by (auto simp: upload_file_def accepts_def inside_def destination_def Let_def)

lemma upload_loop_result:
  "list_all (inside L m) (kept L E m (files (disk st)) fs) \<Longrightarrow>
   \<exists>st2 new. upload_loop L E m fs st = Inr st2
     \<and> u_data st2 = u_data st @ new
     \<and> map original_filename new = map filename (kept L E m (files (disk st)) fs)
     \<and> map stored_path new = map (\<lambda>f. Some (destination L m f)) (kept L E m (files (disk st)) fs)
     \<and> saved_count st2 = saved_count st + length (kept L E m (files (disk st)) fs)
     \<and> skipped_count st2 + length (kept L E m (files (disk st)) fs) = skipped_count st + length fs
     \<and> length (warnings st2) + length (kept L E m (files (disk st)) fs)
         = length (warnings st) + length fs
     \<and> files (disk st2) = files_after L E m (files (disk st)) fs
     \<and> store (disk st2) = store (disk st)
     \<and> (\<exists>evs. trace (disk st2) = trace (disk st) @ evs \<and> SaveData \<notin> set evs)"
proof (induction fs arbitrary: st)
  case Nil
  show ?case by simp
next
  case (Cons f fs)
  show ?case
  proof (cases "accepts L E m (files (disk st)) f")
    case True
    then have ins: "inside L m f"
      and rest: "list_all (inside L m) (kept L E m ((files (disk st))(destination L m f \<mapsto> payload f)) fs)"
      using Cons.prems by simp_all
    from upload_file_accepted [OF True ins] obtain st1 r e1 where a:
      "upload_file L E m f st = Inr st1" "u_data st1 = u_data st @ [r]"
      "original_filename r = filename f" "stored_path r = Some (destination L m f)"
      "saved_count st1 = saved_count st + 1" "skipped_count st1 = skipped_count st"
      "files (disk st1) = (files (disk st))(destination L m f \<mapsto> payload f)"
      "store (disk st1) = store (disk st)"
      "trace (disk st1) = trace (disk st) @ e1" "SaveData \<notin> set e1"
      "warnings st1 = warnings st"
      by blast
    have rest1: "list_all (inside L m) (kept L E m (files (disk st1)) fs)"
      using rest a(7) by simp
    from Cons.IH [OF rest1] obtain st2 new evs where ih:
      "upload_loop L E m fs st1 = Inr st2"
      "u_data st2 = u_data st1 @ new"
      "map original_filename new = map filename (kept L E m (files (disk st1)) fs)"
      "map stored_path new = map (\<lambda>f. Some (destination L m f)) (kept L E m (files (disk st1)) fs)"
      "saved_count st2 = saved_count st1 + length (kept L E m (files (disk st1)) fs)"
      "skipped_count st2 + length (kept L E m (files (disk st1)) fs) = skipped_count st1 + length fs"
      "length (warnings st2) + length (kept L E m (files (disk st1)) fs) = length (warnings st1) + length fs"
      "files (disk st2) = files_after L E m (files (disk st1)) fs"
      "store (disk st2) = store (disk st1)"
      "trace (disk st2) = trace (disk st1) @ evs" "SaveData \<notin> set evs"
      by blast
    have t: "trace (disk st2) = trace (disk st) @ (e1 @ evs)" "SaveData \<notin> set (e1 @ evs)"
      using ih(10,11) a(9,10) by simp_all
    show ?thesis
      using True a ih(1-9) t
      by (intro exI [of _ st2] exI [of _ "r # new"] conjI exI [of _ "e1 @ evs"]) simp_all
  next
    case False
    then have rest: "list_all (inside L m) (kept L E m (files (disk st)) fs)"
      using Cons.prems by simp
    from upload_file_rejected [OF False] obtain st1 e1 where j:
      "upload_file L E m f st = Inr st1" "u_data st1 = u_data st"
      "saved_count st1 = saved_count st" "skipped_count st1 = skipped_count st + 1"
      "files (disk st1) = files (disk st)" "store (disk st1) = store (disk st)"
      "trace (disk st1) = trace (disk st) @ e1" "SaveData \<notin> set e1"
      "length (warnings st1) = length (warnings st) + 1"
      by blast
    have rest1: "list_all (inside L m) (kept L E m (files (disk st1)) fs)"
      using rest j(5) by simp
    from Cons.IH [OF rest1] obtain st2 new evs where ih:
      "upload_loop L E m fs st1 = Inr st2"
      "u_data st2 = u_data st1 @ new"
      "map original_filename new = map filename (kept L E m (files (disk st1)) fs)"
      "map stored_path new = map (\<lambda>f. Some (destination L m f)) (kept L E m (files (disk st1)) fs)"
      "saved_count st2 = saved_count st1 + length (kept L E m (files (disk st1)) fs)"
      "skipped_count st2 + length (kept L E m (files (disk st1)) fs) = skipped_count st1 + length fs"
      "length (warnings st2) + length (kept L E m (files (disk st1)) fs) = length (warnings st1) + length fs"
      "files (disk st2) = files_after L E m (files (disk st1)) fs"
      "store (disk st2) = store (disk st1)"
      "trace (disk st2) = trace (disk st1) @ evs" "SaveData \<notin> set evs"
      by blast
    have t: "trace (disk st2) = trace (disk st) @ (e1 @ evs)" "SaveData \<notin> set (e1 @ evs)"
      using ih(10,11) j(7,8) by simp_all
    show ?thesis
      using False j ih(1-9) t
      by (intro exI [of _ st2] exI [of _ new] conjI exI [of _ "e1 @ evs"]) simp_all
  qed
qed

lemma upload_file_cases:
  "(\<exists>st1. upload_file L E m f st = Inr st1
       \<and> (u_data st1 = u_data st \<or> (\<exists>r. u_data st1 = u_data st @ [r] \<and> pid r = next_id (u_data st)))
       \<and> store (disk st1) = store (disk st)
       \<and> (\<exists>evs. trace (disk st1) = trace (disk st) @ evs \<and> SaveData \<notin> set evs))
   \<or> (\<exists>d. upload_file L E m f st = Inl (ValueError, d) \<and> store d = store (disk st)
          \<and> (\<exists>evs. trace d = trace (disk st) @ evs \<and> SaveData \<notin> set evs))"
proof (cases "accepts L E m (files (disk st)) f")
  case False
  from upload_file_rejected [OF False] show ?thesis by blast
next
  case True
  show ?thesis
  proof (cases "inside L m f")
    case True
    from upload_file_accepted [OF \<open>accepts L E m (files (disk st)) f\<close> True] show ?thesis by blast
  next
    case False
    from upload_file_escapes [OF True False] show ?thesis by blast
  qed
qed

lemma ids_ok_append:
  "ids_ok coll \<Longrightarrow> pid r = next_id coll \<Longrightarrow> ids_ok (coll @ [r])"
proof -
  assume ok: "ids_ok coll" and r: "pid r = next_id coll"
  have fresh: "pid r \<notin> pid ` set coll"
    using next_id_greater [of _ coll] r by force
  have pos: "0 < pid r"
  proof (cases coll)
    case Nil
    then show ?thesis using r by (simp add: next_id_Nil)
  next
    case (Cons p ps)
    then have "pid p < next_id coll" by (intro next_id_greater) simp
    moreover have "0 < pid p" using ok Cons by (simp add: ids_ok_def)
    ultimately show ?thesis using r by simp
  qed
  show ?thesis using ok fresh pos by (auto simp: ids_ok_def)
qed

lemma upload_valid:
  "form_metadata L form = Some m \<Longrightarrow> filter (\<lambda>f. filename f \<noteq> []) fs0 \<noteq> [] \<Longrightarrow>
   upload L E True POST form fs0 w = store_batch L E m (filter (\<lambda>f. filename f \<noteq> []) fs0) w"
  by (auto simp: upload_def form_metadata_def parse_exam_year_reading Let_def
           split: sum.splits option.splits prod.splits py_error.splits if_splits)

lemma upload_invalid:
  "form_metadata L form = None \<Longrightarrow> \<exists>reason. upload L E True POST form fs0 w = (Rejected reason, w)"
  by (auto simp: upload_def form_metadata_def parse_exam_year_reading Let_def
           split: sum.splits option.splits prod.splits py_error.splits if_splits)

lemma upload_no_files:
  "filter (\<lambda>f. filename f \<noteq> []) fs0 = [] \<Longrightarrow> \<exists>reason. upload L E True POST form fs0 w = (Rejected reason, w)"
  by (auto simp: upload_def parse_exam_year_reading Let_def
           split: sum.splits option.splits prod.splits py_error.splits if_splits)

lemma upload_world_cases:
  "snd (upload L E a mth form fs0 w) = w \<or> (\<exists>m fs. upload L E a mth form fs0 w = store_batch L E m fs w)"
  by (auto simp: upload_def parse_exam_year_reading Let_def
           split: sum.splits option.splits prod.splits py_error.splits if_splits)

lemma kept_append:
  "kept L E m present (xs @ ys) = kept L E m present xs @ kept L E m (files_after L E m present xs) ys"
  by (induction xs arbitrary: present) simp_all

lemma files_after_append:
  "files_after L E m present (xs @ ys) = files_after L E m (files_after L E m present xs) ys"
  by (induction xs arbitrary: present) simp_all

lemma skipped_sibling:
  "\<not> accepts L E m (files_after L E m present xs) f \<Longrightarrow>
   kept L E m present (xs @ f # ys) = kept L E m present (xs @ ys)
   \<and> files_after L E m present (xs @ f # ys) = files_after L E m present (xs @ ys)"
  by (simp add: kept_append files_after_append)

lemma delete_store_cases:
  "store (snd (delete_paper E a k w)) = store w
   \<or> store (snd (delete_paper E a k w)) = filter (\<lambda>p. pid p \<noteq> k) (store w)"
  by (auto simp: delete_paper_def load_data_def save_data_def unlink_backing_store
           split: option.splits prod.splits)

lemma ids_ok_filter: "ids_ok coll \<Longrightarrow> ids_ok (filter P coll)"
  by (auto simp: ids_ok_def distinct_map_filter)

lemma ids_ok_healed: "ids_ok (map healed coll) = ids_ok coll"
proof -
  have "map pid (map healed coll) = map pid coll" by (simp add: healed_def)
  moreover have "pid ` set (map healed coll) = pid ` set coll"
    by (simp add: image_image healed_def)
  ultimately show ?thesis unfolding ids_ok_def by (metis (no_types, lifting) image_iff list.set_map)
qed

lemma upload_loop_outcome:
  "(\<exists>st2 new. upload_loop L E m fs st = Inr st2 \<and> u_data st2 = u_data st @ new
       \<and> (ids_ok (u_data st) \<longrightarrow> ids_ok (u_data st2))
       \<and> store (disk st2) = store (disk st)
       \<and> (\<exists>evs. trace (disk st2) = trace (disk st) @ evs \<and> SaveData \<notin> set evs))
   \<or> (\<exists>d. upload_loop L E m fs st = Inl (ValueError, d) \<and> store d = store (disk st)
          \<and> (\<exists>evs. trace d = trace (disk st) @ evs \<and> SaveData \<notin> set evs))"
proof (induction fs arbitrary: st)
  case Nil
  show ?case by simp
next
  case (Cons f fs)
  from upload_file_cases [of L E m f st] consider
    (ok) st1 e1 where "upload_file L E m f st = Inr st1"
      "u_data st1 = u_data st \<or> (\<exists>r. u_data st1 = u_data st @ [r] \<and> pid r = next_id (u_data st))"
      "store (disk st1) = store (disk st)"
      "trace (disk st1) = trace (disk st) @ e1" "SaveData \<notin> set e1"
    | (raised) d e1 where "upload_file L E m f st = Inl (ValueError, d)" "store d = store (disk st)"
      "trace d = trace (disk st) @ e1" "SaveData \<notin> set e1"
    by blast
  then show ?case
  proof cases
    case raised
    then show ?thesis by auto
  next
    case ok
    from ok(2) obtain n1 where n1: "u_data st1 = u_data st @ n1"
      "ids_ok (u_data st) \<longrightarrow> ids_ok (u_data st1)"
      using ids_ok_append [of "u_data st"] by (metis append_Nil2)
    from Cons [of st1] consider
      (fin) st2 new evs where "upload_loop L E m fs st1 = Inr st2" "u_data st2 = u_data st1 @ new"
        "ids_ok (u_data st1) \<longrightarrow> ids_ok (u_data st2)" "store (disk st2) = store (disk st1)"
        "trace (disk st2) = trace (disk st1) @ evs" "SaveData \<notin> set evs"
      | (later) d evs where "upload_loop L E m fs st1 = Inl (ValueError, d)" "store d = store (disk st1)"
        "trace d = trace (disk st1) @ evs" "SaveData \<notin> set evs"
      by blast
    then show ?thesis
    proof cases
      case fin
      have t: "trace (disk st2) = trace (disk st) @ (e1 @ evs)" "SaveData \<notin> set (e1 @ evs)"
        using fin(5,6) ok(4,5) by simp_all
      have "upload_loop L E m (f # fs) st = Inr st2" by (simp add: ok(1) fin(1))
      moreover have "u_data st2 = u_data st @ (n1 @ new)" by (simp add: fin(2) n1(1))
      moreover have "ids_ok (u_data st) \<longrightarrow> ids_ok (u_data st2)" using n1(2) fin(3) by blast
      moreover have "store (disk st2) = store (disk st)" by (simp add: fin(4) ok(3))
      ultimately show ?thesis using t by blast
    next
      case later
      have t: "trace d = trace (disk st) @ (e1 @ evs)" "SaveData \<notin> set (e1 @ evs)"
        using later(3,4) ok(4,5) by simp_all
      have "upload_loop L E m (f # fs) st = Inl (ValueError, d)" by (simp add: ok(1) later(1))
      moreover have "store d = store (disk st)" by (simp add: later(2) ok(3))
      ultimately show ?thesis using t by blast
    qed
  qed
qed

lemma store_batch_store:
  "\<exists>new. store (snd (store_batch L E m fs w)) = store w @ new
         \<and> (ids_ok (store w) \<longrightarrow> ids_ok (store w @ new))"
proof -
  let ?d = "posix_path L [py_str (m_year m), py_str (m_semester m), m_subject m, m_exam_type m]"
  let ?init = "\<lparr>u_data = store w, saved_count = 0, skipped_count = 0, warnings = [],
                disk = w\<lparr>trace := trace w @ [MkDir ?d, LoadData]\<rparr>\<rparr>"
  have sb: "store_batch L E m fs w =
      (case upload_loop L E m fs ?init of
         Inl (e, d) \<Rightarrow> (Unhandled e, d)
       | Inr st \<Rightarrow> (Processed (saved_count st) (skipped_count st) (warnings st),
                    save_data (u_data st) (disk st)))"
    by (simp add: store_batch_def load_data_def Let_def)
  from upload_loop_outcome [of L E m fs ?init] show ?thesis
  proof (elim disjE exE conjE)
    fix st2 new evs
    assume "upload_loop L E m fs ?init = Inr st2" "u_data st2 = u_data ?init @ new"
      "ids_ok (u_data ?init) \<longrightarrow> ids_ok (u_data st2)"
    then show ?thesis
      by (intro exI [of _ new]) (simp add: sb save_data_def)
  next
    fix d evs
    assume "upload_loop L E m fs ?init = Inl (ValueError, d)" "store d = store (disk ?init)"
    then show ?thesis
      by (intro exI [of _ "[]"]) (simp add: sb)
  qed
qed

lemma store_batch_result:
  assumes "list_all (inside L m) (kept L E m (files w) fs)"
  shows "\<exists>new warns evs.
     store_batch L E m fs w =
       (Processed (length (kept L E m (files w) fs)) (length fs - length (kept L E m (files w) fs)) warns,
        \<lparr>store = store w @ new, files = files_after L E m (files w) fs,
         trace = trace w @ MkDir (posix_path L [py_str (m_year m), py_str (m_semester m),
                                     m_subject m, m_exam_type m]) # LoadData # evs @ [SaveData]\<rparr>)
     \<and> map original_filename new = map filename (kept L E m (files w) fs)
     \<and> map stored_path new = map (\<lambda>f. Some (destination L m f)) (kept L E m (files w) fs)
     \<and> length warns = length fs - length (kept L E m (files w) fs)
     \<and> SaveData \<notin> set evs"
proof -
  let ?d = "posix_path L [py_str (m_year m), py_str (m_semester m), m_subject m, m_exam_type m]"
  let ?init = "\<lparr>u_data = store w, saved_count = 0, skipped_count = 0, warnings = [],
                disk = w\<lparr>trace := trace w @ [MkDir ?d, LoadData]\<rparr>\<rparr>"
  let ?K = "kept L E m (files w) fs"
  have pre: "list_all (inside L m) (kept L E m (files (disk ?init)) fs)"
    using assms by simp
  note R = upload_loop_result [OF pre, simplified]
  from R obtain fin new evs where r:
    "upload_loop L E m fs ?init = Inr fin"
    "u_data fin = store w @ new"
    "map original_filename new = map filename ?K"
    "map stored_path new = map (\<lambda>f. Some (destination L m f)) ?K"
    "saved_count fin = length ?K"
    "skipped_count fin + length ?K = length fs"
    "length (warnings fin) + length ?K = length fs"
    "files (disk fin) = files_after L E m (files w) fs"
    "store (disk fin) = store w"
    "trace (disk fin) = trace w @ MkDir ?d # LoadData # evs" "SaveData \<notin> set evs"
    by blast
  have sb: "store_batch L E m fs w =
      (Processed (saved_count fin) (skipped_count fin) (warnings fin), save_data (u_data fin) (disk fin))"
    by (simp add: store_batch_def load_data_def Let_def r(1))
  have w1: "save_data (u_data fin) (disk fin) =
      \<lparr>store = store w @ new, files = files_after L E m (files w) fs,
       trace = trace w @ MkDir ?d # LoadData # evs @ [SaveData]\<rparr>"
    using r(2,8,10) by (simp add: save_data_def)
  have sk: "skipped_count fin = length fs - length ?K" using r(6) by simp
  have wl: "length (warnings fin) = length fs - length ?K" using r(7) by simp
  show ?thesis
    using r(3,4,11) wl
    by (intro exI [of _ new] exI [of _ "warnings fin"] exI [of _ evs])
       (simp add: sb w1 r(5) sk)
qed

lemma store_batch_ids_ok: "ids_ok (store w) \<Longrightarrow> ids_ok (store (snd (store_batch L E m fs w)))"
  using store_batch_store [of L E m fs w] by auto

lemma upload_ids_ok: "ids_ok (store w) \<Longrightarrow> ids_ok (store (snd (upload L E a mth form fs0 w)))"
  using upload_world_cases [of L E a mth form fs0 w] store_batch_ids_ok by (metis snd_conv)

lemma delete_ids_ok: "ids_ok (store w) \<Longrightarrow> ids_ok (store (snd (delete_paper E a k w)))"
  using delete_store_cases [of E a k w] ids_ok_filter by metis

lemma normalize_ids_ok: "ids_ok (store w) \<Longrightarrow> ids_ok (store (snd (normalize_data_paths w)))"
  by (simp add: normalize_store ids_ok_healed)

lemma sample_not_allowed: "\<not> allowed_file sample_lib (lit ''b.txt'')"
  by (simp add: allowed_file_def after_last_dot_def ALLOWED_EXTENSIONS_def py_lower_def
        ascii_lower_def sample_lib_def lit_def)

lemma sample_form_metadata: "form_metadata L sample_form = Some sample_meta"
proof -
  have "py_strip (lit ''2023'') = lit ''2023''" by (rule sample_strip)
  then show ?thesis
    unfolding form_metadata_def sample_form_def sample_meta_def
    by (simp add: or_str_lit sample_strip py_int_lit_1 text_examples reading_examples lit_Cons_not_Nil)
qed

lemma sample_accepts:
  "accepts sample_lib sample_env sample_meta present (sample_file ''a.pdf'' n)"
  by (simp add: accepts_def sample_allowed sample_file_def sample_env_def)

lemma sample_rejects:
  "\<not> accepts sample_lib E sample_meta present (sample_file ''b.txt'' n)"
  by (simp add: accepts_def sample_not_allowed sample_file_def)

lemma sample_batch_filter: "filter (\<lambda>f. filename f \<noteq> []) sample_batch = sample_batch"
  by (simp add: sample_batch_def sample_file_def lit_Cons_not_Nil)

lemma sample_batch_kept:
  "kept sample_lib sample_env sample_meta present sample_batch =
     [sample_file ''a.pdf'' 5, sample_file ''a.pdf'' 6]"
  by (simp add: sample_batch_def sample_accepts sample_rejects)

lemma py_int_lit_5: "py_int L (lit ''5'') = Inr 5"
  using py_int_digits [of "lit ''5''" L]
  by (simp add: lit_def is_decimal_ascii digits_value_def digit_of_ascii)

lemma bad_form_metadata: "form_metadata L (sample_form\<lparr>f_year := Some (lit ''5'')\<rparr>) = None"
proof -
  have "py_strip (lit ''2023'') = lit ''2023''" by (rule sample_strip)
  then show ?thesis
    unfolding form_metadata_def sample_form_def
    by (simp add: or_str_lit sample_strip py_int_lit_1 py_int_lit_5 text_examples reading_examples
          lit_Cons_not_Nil)
qed

lemma escape_form_metadata: "form_metadata L escape_form = Some escape_meta"
proof -
  have a: "py_strip (lit ''2023'') = lit ''2023''" by (rule sample_strip)
  have b: "py_strip (lit ''/tmp/x'') = lit ''/tmp/x''"
    by (simp add: py_strip_def py_isspace_def lit_def)
  show ?thesis
    unfolding form_metadata_def escape_form_def sample_form_def escape_meta_def sample_meta_def
    by (simp add: or_str_lit sample_strip a b py_int_lit_1 text_examples reading_examples lit_Cons_not_Nil)
qed

lemma escape_parts:
  "path_parts escape_meta nm = [lit ''1'', lit ''1'', lit ''/tmp/x'', lit ''Mid'', nm]"
  by (simp add: path_parts_def escape_meta_def sample_meta_def py_str_def dec_digits_small lit_def)

lemma escape_outside: "\<not> under_upload sample_lib (path_parts escape_meta nm)"
  by (simp add: escape_parts sample_lib_def absolute_def lit_def)

lemma escape_path:
  "file_path_of sample_lib escape_meta (lit ''a.pdf'') = lit ''/tmp/x/Mid/a.pdf''"
  "file_path_of sample_lib escape_meta (lit ''c.pdf'') = lit ''/tmp/x/Mid/c.pdf''"
  by (simp_all add: file_path_of_def escape_parts sample_lib_def absolute_def lit_def)

lemma escape_dir:
  "posix_path sample_lib [py_str (m_year escape_meta), py_str (m_semester escape_meta),
      m_subject escape_meta, m_exam_type escape_meta] = lit ''/tmp/x/Mid''"
  by (simp add: escape_meta_def sample_meta_def sample_lib_def absolute_def py_str_def
        dec_digits_small lit_def)

lemma sample_allowed_c: "allowed_file sample_lib (lit ''c.pdf'')"
  by (simp add: allowed_file_def after_last_dot_def ALLOWED_EXTENSIONS_def py_lower_def
        ascii_lower_def sample_lib_def lit_def)

lemma escape_upload_file:
  "upload_file sample_lib sample_env escape_meta (sample_file ''a.pdf'' 5) st =
     Inl (ValueError,
          (disk st)\<lparr>files := (files (disk st))(lit ''/tmp/x/Mid/a.pdf'' \<mapsto> [5]),
                    trace := trace (disk st)
                      @ (if files (disk st) (lit ''/tmp/x/Mid/a.pdf'') \<noteq> None
                         then [Unlink (lit ''/tmp/x/Mid/a.pdf'')] else [])
                      @ [SaveFile (lit ''/tmp/x/Mid/a.pdf'')]\<rparr>)"
proof -
  have s: "secure_filename sample_lib nm = nm" for nm by (simp add: sample_lib_def)
  have u: "\<not> unlink_raises sample_env q" for q by (simp add: sample_env_def)
  show ?thesis
    by (simp add: upload_file_def sample_file_def sample_allowed s u escape_path escape_outside Let_def)
qed

lemma escape_store_batch:
  "store_batch sample_lib sample_env escape_meta (sample_file ''a.pdf'' 5 # rest) w =
     (Unhandled ValueError,
      w\<lparr>files := (files w)(lit ''/tmp/x/Mid/a.pdf'' \<mapsto> [5]),
        trace := trace w @ [MkDir (lit ''/tmp/x/Mid''), LoadData]
                  @ (if files w (lit ''/tmp/x/Mid/a.pdf'') \<noteq> None
                     then [Unlink (lit ''/tmp/x/Mid/a.pdf'')] else [])
                  @ [SaveFile (lit ''/tmp/x/Mid/a.pdf'')]\<rparr>)"
  unfolding store_batch_def load_data_def escape_dir
  by (simp add: escape_upload_file)

section \<open>The upload: claims C2, C7 and C9\<close>

text \<open>
  C2. The upload visibly means to append one record per accepted file, and it does so
  for every batch whose destinations lie under the upload folder
  (\<open>store_batch_result\<close>). It misses the subject that leads out of the folder. The
  subject \<open>/tmp/x\<close> passes the validation; the file \<open>a.pdf\<close> collides with a file at
  its destination and is accepted; the old file is deleted and the new one written in
  its place; then the computation of the stored path raises \<open>ValueError\<close>. The request
  ends with the new file on disk, no record for it and the collection as it was.
\<close>

theorem upload_outside_folder_appends_nothing:
  "form_metadata sample_lib escape_form = Some escape_meta
   \<and> files world_outside (destination sample_lib escape_meta (sample_file ''a.pdf'' 5)) = Some [9]
   \<and> accepts sample_lib sample_env escape_meta (files world_outside) (sample_file ''a.pdf'' 5)
   \<and> upload sample_lib sample_env True POST escape_form [sample_file ''a.pdf'' 5] world_outside =
       (Unhandled ValueError,
        \<lparr>store = store world_outside, files = [lit ''/tmp/x/Mid/a.pdf'' \<mapsto> [5]],
         trace = [MkDir (lit ''/tmp/x/Mid''), LoadData, Unlink (lit ''/tmp/x/Mid/a.pdf''),
                  SaveFile (lit ''/tmp/x/Mid/a.pdf'')]\<rparr>)"
proof -
  have f: "filter (\<lambda>f. filename f \<noteq> []) [sample_file ''a.pdf'' 5] = [sample_file ''a.pdf'' 5]"
    by (simp add: sample_file_def lit_Cons_not_Nil)
  have ne: "filter (\<lambda>f. filename f \<noteq> []) [sample_file ''a.pdf'' 5] \<noteq> []"
    unfolding f by simp
  have s: "secure_filename sample_lib nm = nm" for nm by (simp add: sample_lib_def)
  have d: "destination sample_lib escape_meta (sample_file ''a.pdf'' 5) = lit ''/tmp/x/Mid/a.pdf''"
    by (simp add: destination_def sample_file_def s escape_path)
  have p: "files world_outside (lit ''/tmp/x/Mid/a.pdf'') = Some [9]"
    by (simp add: world_outside_def)
  have a: "accepts sample_lib sample_env escape_meta (files world_outside) (sample_file ''a.pdf'' 5)"
    by (simp add: accepts_def sample_allowed sample_file_def sample_env_def)
  have u: "upload sample_lib sample_env True POST escape_form [sample_file ''a.pdf'' 5] world_outside =
           store_batch sample_lib sample_env escape_meta [sample_file ''a.pdf'' 5] world_outside"
    using upload_valid [OF escape_form_metadata ne] unfolding f .
  have r: "store_batch sample_lib sample_env escape_meta [sample_file ''a.pdf'' 5] world_outside =
       (Unhandled ValueError,
        \<lparr>store = store world_outside, files = [lit ''/tmp/x/Mid/a.pdf'' \<mapsto> [5]],
         trace = [MkDir (lit ''/tmp/x/Mid''), LoadData, Unlink (lit ''/tmp/x/Mid/a.pdf''),
                  SaveFile (lit ''/tmp/x/Mid/a.pdf'')]\<rparr>)"
    unfolding escape_store_batch by (simp add: world_outside_def)
  show ?thesis
    using a by (simp add: escape_form_metadata u r d p)
qed

theorem upload_outside_folder_appends_nothing_witness:
  "m_subject escape_meta \<noteq> [] \<and> m_exam_type escape_meta \<in> {lit ''Mid'', lit ''End''}
   \<and> m_year escape_meta \<in> {1, 2, 3, 4} \<and> 1 \<le> m_semester escape_meta \<and> m_semester escape_meta < 9
   \<and> fst (upload sample_lib sample_env True POST escape_form [sample_file ''a.pdf'' 5] world_outside)
       = Unhandled ValueError
   \<and> store (snd (upload sample_lib sample_env True POST escape_form [sample_file ''a.pdf'' 5] world_outside))
       = []
   \<and> files (snd (upload sample_lib sample_env True POST escape_form [sample_file ''a.pdf'' 5] world_outside))
        (lit ''/tmp/x/Mid/a.pdf'') = Some [5]"
proof -
  note T = upload_outside_folder_appends_nothing
  have u: "upload sample_lib sample_env True POST escape_form [sample_file ''a.pdf'' 5] world_outside =
       (Unhandled ValueError,
        \<lparr>store = store world_outside, files = [lit ''/tmp/x/Mid/a.pdf'' \<mapsto> [5]],
         trace = [MkDir (lit ''/tmp/x/Mid''), LoadData, Unlink (lit ''/tmp/x/Mid/a.pdf''),
                  SaveFile (lit ''/tmp/x/Mid/a.pdf'')]\<rparr>)"
    by (rule T [THEN conjunct2, THEN conjunct2, THEN conjunct2])
  have m: "m_subject escape_meta \<noteq> []" "m_exam_type escape_meta \<in> {lit ''Mid'', lit ''End''}"
    "m_year escape_meta \<in> {1, 2, 3, 4}" "1 \<le> m_semester escape_meta" "m_semester escape_meta < 9"
    by (simp_all add: escape_meta_def sample_meta_def lit_def)
  have a: "fst (upload sample_lib sample_env True POST escape_form [sample_file ''a.pdf'' 5] world_outside)
       = Unhandled ValueError"
    unfolding u by simp
  have b: "store (snd (upload sample_lib sample_env True POST escape_form [sample_file ''a.pdf'' 5] world_outside))
       = []"
    unfolding u by (simp add: world_outside_def)
  have c: "files (snd (upload sample_lib sample_env True POST escape_form [sample_file ''a.pdf'' 5] world_outside))
        (lit ''/tmp/x/Mid/a.pdf'') = Some [5]"
    unfolding u by simp
  show ?thesis by (intro conjI m a b c)
qed

text \<open>
  C7. A form that fails the validation is rejected with the disk untouched
  (\<open>upload_invalid\<close>), and a batch whose destinations lie under the upload folder skips
  only the unsupported and the undeletable files and saves the collection once, at the
  end (\<open>store_batch_result\<close>, \<open>skipped_sibling\<close>). Not so for a subject that leads out
  of the folder: with the subject \<open>/tmp/x\<close> and the files \<open>a.pdf\<close> and \<open>c.pdf\<close>, the
  exception at the first file ends the request. The sibling \<open>c.pdf\<close>, which the loop
  would accept, is never written, and the collection is never saved.
\<close>

theorem upload_outside_folder_aborts_batch:
  "form_metadata sample_lib escape_form = Some escape_meta
   \<and> fst (upload sample_lib sample_env True POST escape_form
            [sample_file ''a.pdf'' 5, sample_file ''c.pdf'' 6] world_3_7) = Unhandled ValueError
   \<and> files (snd (upload sample_lib sample_env True POST escape_form
            [sample_file ''a.pdf'' 5, sample_file ''c.pdf'' 6] world_3_7))
       = [lit ''/tmp/x/Mid/a.pdf'' \<mapsto> [5]]
   \<and> accepts sample_lib sample_env escape_meta [lit ''/tmp/x/Mid/a.pdf'' \<mapsto> [5]]
         (sample_file ''c.pdf'' 6)
   \<and> destination sample_lib escape_meta (sample_file ''c.pdf'' 6) = lit ''/tmp/x/Mid/c.pdf''
   \<and> store (snd (upload sample_lib sample_env True POST escape_form
            [sample_file ''a.pdf'' 5, sample_file ''c.pdf'' 6] world_3_7)) = store world_3_7
   \<and> SaveData \<notin> set (trace (snd (upload sample_lib sample_env True POST escape_form
            [sample_file ''a.pdf'' 5, sample_file ''c.pdf'' 6] world_3_7)))"
proof -
  let ?b = "[sample_file ''a.pdf'' 5, sample_file ''c.pdf'' 6]"
  have f: "filter (\<lambda>f. filename f \<noteq> []) ?b = ?b"
    by (simp add: sample_file_def lit_Cons_not_Nil)
  have ne: "filter (\<lambda>f. filename f \<noteq> []) ?b \<noteq> []"
    unfolding f by simp
  have a: "accepts sample_lib sample_env escape_meta [lit ''/tmp/x/Mid/a.pdf'' \<mapsto> [5]]
         (sample_file ''c.pdf'' 6)"
    by (simp add: accepts_def sample_allowed_c sample_file_def sample_env_def)
  have d: "destination sample_lib escape_meta (sample_file ''c.pdf'' 6) = lit ''/tmp/x/Mid/c.pdf''"
  proof -
    have s: "secure_filename sample_lib nm = nm" for nm by (simp add: sample_lib_def)
    show ?thesis by (simp add: destination_def sample_file_def s escape_path)
  qed
  have u: "upload sample_lib sample_env True POST escape_form ?b world_3_7 =
           store_batch sample_lib sample_env escape_meta ?b world_3_7"
    using upload_valid [OF escape_form_metadata ne] unfolding f .
  have r: "store_batch sample_lib sample_env escape_meta ?b world_3_7 =
       (Unhandled ValueError,
        \<lparr>store = store world_3_7, files = [lit ''/tmp/x/Mid/a.pdf'' \<mapsto> [5]],
         trace = [MkDir (lit ''/tmp/x/Mid''), LoadData, SaveFile (lit ''/tmp/x/Mid/a.pdf'')]\<rparr>)"
    unfolding escape_store_batch by (simp add: world_3_7_def)
  show ?thesis
    using a d by (simp add: escape_form_metadata u r)
qed

theorem upload_outside_folder_aborts_batch_witness:
  "m_subject escape_meta \<noteq> [] \<and> m_exam_type escape_meta \<in> {lit ''Mid'', lit ''End''}
   \<and> m_year escape_meta \<in> {1, 2, 3, 4} \<and> 1 \<le> m_semester escape_meta \<and> m_semester escape_meta < 9
   \<and> fst (upload sample_lib sample_env True POST escape_form
            [sample_file ''a.pdf'' 5, sample_file ''c.pdf'' 6] world_3_7) = Unhandled ValueError
   \<and> files (snd (upload sample_lib sample_env True POST escape_form
            [sample_file ''a.pdf'' 5, sample_file ''c.pdf'' 6] world_3_7)) (lit ''/tmp/x/Mid/c.pdf'') = None
   \<and> map pid (store (snd (upload sample_lib sample_env True POST escape_form
            [sample_file ''a.pdf'' 5, sample_file ''c.pdf'' 6] world_3_7))) = [3, 7]"
proof -
  note T = upload_outside_folder_aborts_batch
  have m: "m_subject escape_meta \<noteq> []" "m_exam_type escape_meta \<in> {lit ''Mid'', lit ''End''}"
    "m_year escape_meta \<in> {1, 2, 3, 4}" "1 \<le> m_semester escape_meta" "m_semester escape_meta < 9"
    by (simp_all add: escape_meta_def sample_meta_def lit_def)
  have a: "fst (upload sample_lib sample_env True POST escape_form
            [sample_file ''a.pdf'' 5, sample_file ''c.pdf'' 6] world_3_7) = Unhandled ValueError"
    by (rule T [THEN conjunct2, THEN conjunct1])
  have f: "files (snd (upload sample_lib sample_env True POST escape_form
            [sample_file ''a.pdf'' 5, sample_file ''c.pdf'' 6] world_3_7))
       = [lit ''/tmp/x/Mid/a.pdf'' \<mapsto> [5]]"
    by (rule T [THEN conjunct2, THEN conjunct2, THEN conjunct1])
  have s: "store (snd (upload sample_lib sample_env True POST escape_form
            [sample_file ''a.pdf'' 5, sample_file ''c.pdf'' 6] world_3_7)) = store world_3_7"
    by (rule T [THEN conjunct2, THEN conjunct2, THEN conjunct2, THEN conjunct2, THEN conjunct2, THEN conjunct1])
  have b: "files (snd (upload sample_lib sample_env True POST escape_form
            [sample_file ''a.pdf'' 5, sample_file ''c.pdf'' 6] world_3_7)) (lit ''/tmp/x/Mid/c.pdf'') = None"
    unfolding f by (simp add: lit_def)
  have c: "map pid (store (snd (upload sample_lib sample_env True POST escape_form
            [sample_file ''a.pdf'' 5, sample_file ''c.pdf'' 6] world_3_7))) = [3, 7]"
    unfolding s by (simp add: world_3_7_def sample_paper_def)
  show ?thesis by (intro conjI m a b c)
qed

lemma sample_inside: "inside sample_lib sample_meta (sample_file ''a.pdf'' n)"
  by (simp add: inside_def sample_file_def sample_under_upload)

text \<open>
  C9. When the ids of the collection are pairwise distinct positive integers, they are so
  after an upload request, after a deletion request and after the startup pass over the
  paths. The ids appended by one batch are pairwise distinct and differ from all ids
  that were there before. Every record the upload loop appends, which it does for an
  accepted file whose destination lies under the upload folder, gets the id \<open>next_id\<close>
  of the records held at that moment, which none of them has.
\<close>

theorem ids_stay_unique:
  "(ids_ok (store w) \<longrightarrow>
      ids_ok (store (snd (upload L E a mth form fs0 w)))
      \<and> ids_ok (store (snd (delete_paper E a k w)))
      \<and> ids_ok (store (snd (normalize_data_paths w)))
      \<and> (\<exists>new. store (snd (store_batch L E m fs w)) = store w @ new
              \<and> distinct (map pid new) \<and> (\<forall>r \<in> set new. 0 < pid r)
              \<and> set (map pid new) \<inter> set (map pid (store w)) = {}))
   \<and> (accepts L E m (files (disk st)) f \<and> inside L m f \<longrightarrow>
        (\<exists>st1 r. upload_file L E m f st = Inr st1 \<and> u_data st1 = u_data st @ [r]
              \<and> pid r = next_id (u_data st) \<and> pid r \<notin> pid ` set (u_data st)))"
proof -
  have b: "\<exists>new. store (snd (store_batch L E m fs w)) = store w @ new
              \<and> distinct (map pid new) \<and> (\<forall>r \<in> set new. 0 < pid r)
              \<and> set (map pid new) \<inter> set (map pid (store w)) = {}"
    if ok: "ids_ok (store w)"
  proof -
    from store_batch_store [of L E m fs w] obtain new where r:
      "store (snd (store_batch L E m fs w)) = store w @ new"
      "ids_ok (store w) \<longrightarrow> ids_ok (store w @ new)"
      by blast
    have "ids_ok (store w @ new)" using r(2) ok by simp
    then have "distinct (map pid new) \<and> (\<forall>r \<in> set new. 0 < pid r)
              \<and> set (map pid new) \<inter> set (map pid (store w)) = {}"
      by (auto simp: ids_ok_def)
    then show ?thesis using r(1) by blast
  qed
  have c: "\<exists>st1 r. upload_file L E m f st = Inr st1 \<and> u_data st1 = u_data st @ [r]
              \<and> pid r = next_id (u_data st) \<and> pid r \<notin> pid ` set (u_data st)"
    if acc: "accepts L E m (files (disk st)) f" and ins: "inside L m f"
  proof -
    from upload_file_accepted [OF acc ins] obtain st1 r
      where r: "upload_file L E m f st = Inr st1" "u_data st1 = u_data st @ [r]"
        "pid r = next_id (u_data st)"
      by blast
    have "pid r \<notin> pid ` set (u_data st)"
      using next_id_greater [of _ "u_data st"] r(3) by force
    then show ?thesis using r by blast
  qed
  show ?thesis
    using upload_ids_ok [of w L E a mth form fs0] delete_ids_ok [of w E a k]
      normalize_ids_ok [of w] b c
    by blast
qed

theorem ids_stay_unique_witness:
  "ids_ok (store world_3_7)
   \<and> ids_ok (store (snd (upload sample_lib sample_env True POST sample_form sample_batch world_3_7)))
   \<and> length (store (snd (upload sample_lib sample_env True POST sample_form sample_batch world_3_7))) = 4
   \<and> ids_ok (store (snd (delete_paper sample_env True 7 world_3_7)))
   \<and> ids_ok (store (snd (normalize_data_paths world_3_7)))
   \<and> accepts sample_lib sample_env sample_meta (files world_3_7) (sample_file ''a.pdf'' 5)
   \<and> inside sample_lib sample_meta (sample_file ''a.pdf'' 5)
   \<and> (\<exists>st1. upload_file sample_lib sample_env sample_meta (sample_file ''a.pdf'' 5)
         \<lparr>u_data = store world_3_7, saved_count = 0, skipped_count = 0, warnings = [],
          disk = world_3_7\<rparr> = Inr st1 \<and> map pid (u_data st1) = [3, 7, 8])"
proof -
  let ?a5 = "sample_file ''a.pdf'' 5"
  let ?init = "\<lparr>u_data = store world_3_7, saved_count = 0, skipped_count = 0, warnings = [],
          disk = world_3_7\<rparr>"
  note T = ids_stay_unique
      [of world_3_7 sample_lib sample_env True POST sample_form sample_batch 7 sample_meta
          sample_batch ?init ?a5]
  note T1 = T [THEN conjunct1]
  note T2 = T [THEN conjunct2]
  have g1: "ids_ok (store world_3_7)"
    by (simp add: ids_ok_def world_3_7_def sample_paper_def)
  have g2: "ids_ok (store (snd (upload sample_lib sample_env True POST sample_form sample_batch world_3_7)))"
    and g4: "ids_ok (store (snd (delete_paper sample_env True 7 world_3_7)))"
    and g5: "ids_ok (store (snd (normalize_data_paths world_3_7)))"
    using T1 g1 by simp_all
  have u: "upload sample_lib sample_env True POST sample_form sample_batch world_3_7 =
           store_batch sample_lib sample_env sample_meta sample_batch world_3_7"
    using upload_valid [OF sample_form_metadata, of sample_batch sample_lib sample_env world_3_7]
    by (simp add: sample_batch_filter) (simp add: sample_batch_def)
  have k: "kept sample_lib sample_env sample_meta (files world_3_7) sample_batch
            = [sample_file ''a.pdf'' 5, sample_file ''a.pdf'' 6]"
    by (rule sample_batch_kept)
  have ins: "list_all (inside sample_lib sample_meta)
               (kept sample_lib sample_env sample_meta (files world_3_7) sample_batch)"
    by (simp add: k sample_inside)
  from store_batch_result [OF ins] obtain new where n:
    "store (snd (store_batch sample_lib sample_env sample_meta sample_batch world_3_7)) = store world_3_7 @ new"
    "map original_filename new = map filename (kept sample_lib sample_env sample_meta (files world_3_7) sample_batch)"
    by auto
  have "length (map original_filename new) = 2" unfolding n(2) k by simp
  then have "length new = 2" by simp
  then have g3: "length (store (snd (upload sample_lib sample_env True POST sample_form sample_batch world_3_7))) = 4"
    by (simp add: u n(1)) (simp add: world_3_7_def)
  have g6: "accepts sample_lib sample_env sample_meta (files world_3_7) ?a5"
    by (rule sample_accepts)
  have g7: "inside sample_lib sample_meta ?a5" by (rule sample_inside)
  have d: "files (disk ?init) = files world_3_7" "u_data ?init = store world_3_7" by simp_all
  from T2 g6 g7 obtain st1 r where r:
    "upload_file sample_lib sample_env sample_meta ?a5 ?init = Inr st1"
    "u_data st1 = store world_3_7 @ [r]"
    "pid r = next_id (store world_3_7)"
    unfolding d by blast
  have "next_id (store world_3_7) = 8"
    by (simp add: next_id_def py_max_default_def world_3_7_def sample_paper_def)
  then have m: "map pid (u_data st1) = [3, 7, 8]"
    using r(2,3) by (simp add: world_3_7_def sample_paper_def)
  have g8: "\<exists>st1. upload_file sample_lib sample_env sample_meta ?a5 ?init = Inr st1
                  \<and> map pid (u_data st1) = [3, 7, 8]"
    by (intro exI [of _ st1] conjI r(1) m)
  show ?thesis
    by (intro conjI; fact)
qed

end
